theory Spec2Isabelle
  imports Complex_Main
begin

section \<open>The hero motion controller of homeMotion.ts\<close>

text \<open>
  The TypeScript type \<^verbatim>\<open>number\<close> is modelled by \<^typ>\<open>real\<close>: the arithmetic of the
  controller is read as exact arithmetic, without the rounding of IEEE doubles and without
  the values NaN and Infinity (a division by zero is excluded where it could occur). Arrays
  are lists, without the length limit of JavaScript arrays. Closure variables of
  \<^verbatim>\<open>initHeroSequence\<close> that a function reads are parameters of its model; those it writes
  are returned. Style strings and canvas colours are not built: the model keeps the numbers
  that go into them.
\<close>

subsection \<open>Numeric helpers\<close>

definition clamp :: "real \<Rightarrow> real \<Rightarrow> real \<Rightarrow> real" where
  "clamp v lo hi = min hi (max lo v)"

definition lerp :: "real \<Rightarrow> real \<Rightarrow> real \<Rightarrow> real" where
  "lerp a b t = a + (b - a) * t"

definition smoothstep :: "real \<Rightarrow> real \<Rightarrow> real \<Rightarrow> real" where
  "smoothstep edge0 edge1 v =
     (let u = clamp ((v - edge0) / max (edge1 - edge0) 0.0001) 0 1
      in u * u * (3 - 2 * u))"

subsection \<open>Scroll tracker: progress and energy\<close>

text \<open>
  \<^verbatim>\<open>scrollProgress\<close> and \<^verbatim>\<open>scrollEnergy\<close> are written by the ScrollTrigger callback
  \<^verbatim>\<open>onUpdate\<close> and \<^verbatim>\<open>scrollEnergy\<close> is decayed by every \<^verbatim>\<open>draw\<close>. With reduced
  motion, \<^verbatim>\<open>onUpdate\<close> itself calls \<^verbatim>\<open>draw\<close>.
\<close>

record scroll_state =
  scrollProgress :: real
  scrollEnergy :: real

definition draw_energy :: "scroll_state \<Rightarrow> scroll_state" where
  "draw_energy st = st\<lparr>scrollEnergy := max 0 (scrollEnergy st * 0.94 - 0.002)\<rparr>"

definition onUpdate :: "bool \<Rightarrow> real \<Rightarrow> real \<Rightarrow> scroll_state \<Rightarrow> scroll_state" where
  "onUpdate reduceMotion progress velocity st =
     (let st1 = st\<lparr>scrollProgress := progress,
                    scrollEnergy := clamp (scrollEnergy st + clamp (\<bar>velocity\<bar> / 3000) 0 1) 0 2\<rparr>
      in if reduceMotion then draw_energy st1 else st1)"

datatype hero_event = ScrollUpdate real real | AnimationFrame

fun hero_step :: "bool \<Rightarrow> scroll_state \<Rightarrow> hero_event \<Rightarrow> scroll_state" where
  "hero_step rm st (ScrollUpdate progress velocity) = onUpdate rm progress velocity st"
| "hero_step rm st AnimationFrame = draw_energy st"

definition initial_scroll :: scroll_state where
  "initial_scroll = \<lparr>scrollProgress = 0, scrollEnergy = 0\<rparr>"

definition hero_run :: "bool \<Rightarrow> hero_event list \<Rightarrow> scroll_state" where
  "hero_run rm evs = foldl (hero_step rm) initial_scroll evs"

subsection \<open>Hover pause of the orbit clock\<close>

record pause_state =
  orbitPaused :: bool
  pauseTimeOffset :: real
  pauseStartTime :: real

definition getOrbitTime :: "pause_state \<Rightarrow> real \<Rightarrow> real" where
  "getOrbitTime st nowSeconds =
     (if orbitPaused st
      then nowSeconds - pauseTimeOffset st - (nowSeconds - pauseStartTime st)
      else nowSeconds - pauseTimeOffset st)"

text \<open>
  \<^verbatim>\<open>computeBaseSpin\<close> is the sum of a time-driven term (\<open>baseRate\<close>) and two terms driven
  by scroll progress and by the drag offset.
\<close>

definition baseRate :: "bool \<Rightarrow> pause_state \<Rightarrow> real \<Rightarrow> real \<Rightarrow> real" where
  "baseRate reduceMotion st nowSeconds speedMultiplier =
     (if reduceMotion then 0 else getOrbitTime st nowSeconds * 0.17 * speedMultiplier)"

definition computeBaseSpin ::
  "bool \<Rightarrow> real \<Rightarrow> real \<Rightarrow> pause_state \<Rightarrow> real \<Rightarrow> real \<Rightarrow> real" where
  "computeBaseSpin reduceMotion progress touchSpinOffset st nowSeconds speedMultiplier =
     baseRate reduceMotion st nowSeconds speedMultiplier
       + progress * pi * 0.55 * speedMultiplier + touchSpinOffset * speedMultiplier"

text \<open>\<open>perfNow\<close> is the value of \<^verbatim>\<open>performance.now() * 0.001\<close> read by the handler.\<close>

definition pauseOrbit :: "real \<Rightarrow> pause_state \<Rightarrow> pause_state" where
  "pauseOrbit perfNow st =
     (if orbitPaused st then st
      else st\<lparr>orbitPaused := True, pauseStartTime := perfNow\<rparr>)"

definition resumeOrbit :: "real \<Rightarrow> pause_state \<Rightarrow> pause_state" where
  "resumeOrbit perfNow st =
     (if \<not> orbitPaused st then st
      else st\<lparr>pauseTimeOffset := pauseTimeOffset st + (perfNow - pauseStartTime st),
              orbitPaused := False\<rparr>)"

subsection \<open>Configuration\<close>

text \<open>
  \<^verbatim>\<open>MotionConfig\<close> and its nested objects. The type parameter \<open>'n\<close> is the type of the
  scalar fields and \<open>'r\<close> the type of \<^verbatim>\<open>orbit.rings\<close>: the controller reads a
  configuration of numbers, while \<^verbatim>\<open>parseConfig\<close> copies whatever values the JSON held
  (the cast to \<^verbatim>\<open>PartialMotionConfig\<close> is not checked at run time).
\<close>

record RingConfig =
  radiusFactor :: real
  ellipseRatio :: real
  ellipseRatioMobile :: real
  speedMultiplier :: real
  tiltOffset :: real
  strokeAlpha :: real

record 'n AnimationConfig =
  revealDuration :: 'n
  revealY :: 'n
  magneticScale :: 'n

record 'n StarsConfig =
  desktopCount :: 'n
  mobileCount :: 'n
  depth :: 'n
  baseSpeed :: 'n
  warpBoost :: 'n

record ('n, 'r) OrbitConfig =
  start :: 'n
  full :: 'n
  radiusDesktop :: 'n
  radiusMobile :: 'n
  rings :: 'r

record ('n, 'r) MotionConfig =
  sequenceHeightDesktop :: 'n
  sequenceHeightMobile :: 'n
  animation :: "'n AnimationConfig"
  stars :: "'n StarsConfig"
  orbit :: "('n, 'r) OrbitConfig"

definition defaultRings :: "RingConfig list" where
  "defaultRings =
     [\<lparr>radiusFactor = 0.45, ellipseRatio = 0.52, ellipseRatioMobile = 0.55,
       speedMultiplier = 1.4, tiltOffset = 0, strokeAlpha = 0.10\<rparr>,
      \<lparr>radiusFactor = 0.72, ellipseRatio = 0.58, ellipseRatioMobile = 0.62,
       speedMultiplier = 1.0, tiltOffset = 0.08, strokeAlpha = 0.14\<rparr>,
      \<lparr>radiusFactor = 1.0, ellipseRatio = 0.64, ellipseRatioMobile = 0.68,
       speedMultiplier = 0.7, tiltOffset = - 0.06, strokeAlpha = 0.18\<rparr>]"

definition defaultConfig :: "(real, RingConfig list) MotionConfig" where
  "defaultConfig =
     \<lparr>sequenceHeightDesktop = 520,
      sequenceHeightMobile = 470,
      animation = \<lparr>revealDuration = 0.8, revealY = 24, magneticScale = 1.02\<rparr>,
      stars = \<lparr>desktopCount = 860, mobileCount = 500, depth = 1600,
               baseSpeed = 0.28, warpBoost = 5.1\<rparr>,
      orbit = \<lparr>start = 0.62, full = 0.78, radiusDesktop = 260, radiusMobile = 220,
               rings = defaultRings\<rparr>\<rparr>"

subsection \<open>Stage themes and the stage blend of a frame\<close>

type_synonym ColorRGB = "real \<times> real \<times> real"

record StageTheme =
  base :: ColorRGB
  hazeA :: ColorRGB
  hazeB :: ColorRGB
  palette :: "ColorRGB list"

definition stageThemes :: "StageTheme list" where
  "stageThemes =
     [\<lparr>base = (2, 3, 6), hazeA = (18, 28, 52), hazeB = (8, 18, 40),
       palette = [(145, 154, 176), (172, 180, 198), (214, 221, 236), (255, 255, 255)]\<rparr>,
      \<lparr>base = (2, 4, 8), hazeA = (14, 30, 58), hazeB = (10, 24, 44),
       palette = [(151, 161, 184), (180, 190, 210), (218, 226, 240), (255, 255, 255)]\<rparr>,
      \<lparr>base = (3, 5, 10), hazeA = (12, 34, 64), hazeB = (10, 23, 48),
       palette = [(158, 166, 188), (188, 197, 218), (224, 230, 245), (255, 255, 255)]\<rparr>]"

text \<open>\<^verbatim>\<open>Math.round\<close> rounds half up, as \<^const>\<open>round\<close> does.\<close>

definition lerpColor :: "ColorRGB \<Rightarrow> ColorRGB \<Rightarrow> real \<Rightarrow> ColorRGB" where
  "lerpColor a b t =
     (case a of (a0, a1, a2) \<Rightarrow> case b of (b0, b1, b2) \<Rightarrow>
        (of_int (round (lerp a0 b0 t)), of_int (round (lerp a1 b1 t)),
         of_int (round (lerp a2 b2 t))))"

text \<open>
  The colours that \<^verbatim>\<open>drawAtmosphere\<close> puts into its three gradients: the two stops of the
  backdrop and the inner stops of the two glows. The geometry of the gradients is not part
  of the model.
\<close>

record atmosphere =
  backdropTop :: ColorRGB
  backdropBottom :: ColorRGB
  glowA :: ColorRGB
  glowB :: ColorRGB

definition drawAtmosphere :: "StageTheme \<Rightarrow> StageTheme \<Rightarrow> real \<Rightarrow> atmosphere" where
  "drawAtmosphere themeA themeB mix =
     (let b = lerpColor (base themeA) (base themeB) mix;
          hA = lerpColor (hazeA themeA) (hazeA themeB) mix;
          hB = lerpColor (hazeB themeA) (hazeB themeB) mix
      in case b of (b0, b1, b2) \<Rightarrow>
           \<lparr>backdropTop = (max (b0 - 1) 1, max (b1 - 1) 2, max (b2 - 2) 4),
            backdropBottom = b, glowA = hA, glowB = hB\<rparr>)"

datatype js_error = TypeError | RangeError

text \<open>Reading \<^verbatim>\<open>stageThemes[i]\<close>: out of range the array gives \<^verbatim>\<open>undefined\<close>.\<close>

definition theme_at :: "int \<Rightarrow> StageTheme option" where
  "theme_at i =
     (if 0 \<le> i \<and> i < int (length stageThemes) then Some (stageThemes ! nat i) else None)"

text \<open>The stage computation at the head of \<^verbatim>\<open>draw\<close>.\<close>

definition slideWindow :: "real \<Rightarrow> real" where
  "slideWindow orbitStart = max (orbitStart - 0.02) 0.0001"

definition slideProgress :: "real \<Rightarrow> real \<Rightarrow> real" where
  "slideProgress orbitStart progress = clamp (progress / slideWindow orbitStart) 0 1"

definition stageValue :: "real \<Rightarrow> real \<Rightarrow> real" where
  "stageValue orbitStart progress =
     slideProgress orbitStart progress * max (real (length stageThemes) - 1) 1"

definition stageLower :: "real \<Rightarrow> real \<Rightarrow> int" where
  "stageLower orbitStart progress = \<lfloor>stageValue orbitStart progress\<rfloor>"

definition stageUpper :: "real \<Rightarrow> real \<Rightarrow> int" where
  "stageUpper orbitStart progress =
     min (int (length stageThemes) - 1) (stageLower orbitStart progress + 1)"

definition stageMix :: "real \<Rightarrow> real \<Rightarrow> real" where
  "stageMix orbitStart progress =
     stageValue orbitStart progress - of_int (stageLower orbitStart progress)"

text \<open>
  The two uses of the stage indices in \<^verbatim>\<open>draw\<close>: the call
  \<^verbatim>\<open>drawAtmosphere(stageThemes[stageLower], stageThemes[stageUpper], stageMix)\<close> and the
  palette argument \<^verbatim>\<open>stageThemes[stageUpper].palette\<close> of \<^verbatim>\<open>drawStarField\<close>. Reading a
  field of \<^verbatim>\<open>undefined\<close> throws a TypeError.
\<close>

definition draw_atmosphere :: "real \<Rightarrow> real \<Rightarrow> js_error + atmosphere" where
  "draw_atmosphere orbitStart progress =
     (case theme_at (stageLower orbitStart progress) of
        None \<Rightarrow> Inl TypeError
      | Some themeA \<Rightarrow>
          (case theme_at (stageUpper orbitStart progress) of
             None \<Rightarrow> Inl TypeError
           | Some themeB \<Rightarrow>
               Inr (drawAtmosphere themeA themeB (stageMix orbitStart progress))))"

definition draw_star_palette :: "real \<Rightarrow> real \<Rightarrow> js_error + ColorRGB list" where
  "draw_star_palette orbitStart progress =
     (case theme_at (stageUpper orbitStart progress) of
        None \<Rightarrow> Inl TypeError
      | Some themeB \<Rightarrow> Inr (palette themeB))"

text \<open>
  The palette that a blend of the two themes would give: entry by entry the
  \<^const>\<open>lerpColor\<close> of the two palettes. This follows the wording of the specification, not
  the code, and is used only to compare the two.
\<close>

definition spec_blended_palette :: "StageTheme \<Rightarrow> StageTheme \<Rightarrow> real \<Rightarrow> ColorRGB list" where
  "spec_blended_palette themeA themeB mix =
     map (\<lambda>(a, b). lerpColor a b mix) (zip (palette themeA) (palette themeB))"

subsection \<open>The star pool\<close>

text \<open>
  A star. The fields \<^verbatim>\<open>x\<close>, \<^verbatim>\<open>y\<close>, \<^verbatim>\<open>z\<close> and \<^verbatim>\<open>size\<close> carry the prefix \<open>star_\<close>.
  \<^verbatim>\<open>Math.random()\<close> is a sequence \<open>rnd\<close> of numbers together with the position of the
  next one to be drawn; each call reads one number and advances the position.
\<close>

record Star =
  star_x :: real
  star_y :: real
  star_z :: real
  star_size :: real
  tint :: real
  prevX :: real
  prevY :: real
  initialized :: bool
  isVLogo :: bool
  rotation :: real

definition V_LOGO_CHANCE :: real where
  "V_LOGO_CHANCE = 0.13"

definition createStar :: "(nat \<Rightarrow> real) \<Rightarrow> nat \<Rightarrow> real \<Rightarrow> real \<Rightarrow> Star" where
  "createStar rnd k dep spread =
     \<lparr>star_x = (rnd k * 2 - 1) * spread,
      star_y = (rnd (k + 1) * 2 - 1) * spread * 0.68,
      star_z = rnd (k + 2) * dep + 1,
      star_size = rnd (k + 3) * 1.2 + 0.45,
      tint = rnd (k + 4),
      prevX = 0,
      prevY = 0,
      initialized = False,
      isVLogo = (rnd (k + 5) < V_LOGO_CHANCE),
      rotation = rnd (k + 6) * pi * 2\<rparr>"

text \<open>
  \<^verbatim>\<open>Array.from({ length: count }, f)\<close> builds an array of \<open>ToLength count\<close> elements: none
  for a count that is NaN (here \<open>None\<close>) or negative, the integer part for a positive one.
  The array constructor throws a RangeError for a length above \<open>2^32 - 1\<close>, before any
  element is made.
\<close>

definition MAX_ARRAY_LENGTH :: nat where
  "MAX_ARRAY_LENGTH = 4294967295"

definition createStars ::
  "real option \<Rightarrow> real \<Rightarrow> real \<Rightarrow> (nat \<Rightarrow> real) \<Rightarrow> nat \<Rightarrow> js_error + (Star list \<times> nat)" where
  "createStars count dep spread rnd k =
     (let n = (case count of None \<Rightarrow> 0 | Some c \<Rightarrow> nat \<lfloor>c\<rfloor>)
      in if MAX_ARRAY_LENGTH < n then Inl RangeError
         else Inr (map (\<lambda>i. createStar rnd (k + 7 * i) dep spread) [0..<n], k + 7 * n))"

definition resetStar :: "Star \<Rightarrow> real \<Rightarrow> real \<Rightarrow> (nat \<Rightarrow> real) \<Rightarrow> nat \<Rightarrow> Star \<times> nat" where
  "resetStar star dep spread rnd k =
     (star\<lparr>star_x := (rnd k * 2 - 1) * spread,
           star_y := (rnd (k + 1) * 2 - 1) * spread * 0.68,
           star_z := dep,
           star_size := rnd (k + 2) * 1.2 + 0.45,
           tint := rnd (k + 3),
           initialized := False,
           isVLogo := (rnd (k + 4) < V_LOGO_CHANCE),
           rotation := rnd (k + 5) * pi * 2\<rparr>,
      k + 6)"

definition finalCount :: "(real, 'r) MotionConfig \<Rightarrow> bool \<Rightarrow> bool \<Rightarrow> real" where
  "finalCount config isMobile lowPowerDevice =
     (let configuredCount =
            (if isMobile then mobileCount (stars config) else desktopCount (stars config));
          powerMultiplier = (if lowPowerDevice then 0.62 else 1)
      in max 220 (of_int (round (configuredCount * powerMultiplier))))"

text \<open>
  \<^verbatim>\<open>rebuildStars\<close> writes \<^verbatim>\<open>spread\<close> and \<^verbatim>\<open>stars\<close>; the result is (spread, stars, rnd
  position), or the error thrown by \<^verbatim>\<open>createStars\<close>, in which case no pool is assigned.
  The counts of the configuration are numbers, so the final count is never NaN.
\<close>

definition rebuildStars ::
  "(real, 'r) MotionConfig \<Rightarrow> bool \<Rightarrow> bool \<Rightarrow> real \<Rightarrow> real \<Rightarrow> (nat \<Rightarrow> real) \<Rightarrow> nat
     \<Rightarrow> js_error + (real \<times> Star list \<times> nat)" where
  "rebuildStars config isMobile lowPowerDevice width height rnd k =
     (let spread = max width height * 1.55
      in case createStars (Some (finalCount config isMobile lowPowerDevice))
                (depth (stars config)) spread rnd k
         of Inl e \<Rightarrow> Inl e
          | Inr (pool, k') \<Rightarrow> Inr (spread, pool, k'))"

subsection \<open>Title sequencer\<close>

definition LINE_RAD :: real where
  "LINE_RAD = (90 - 290) * (pi / 180)"

definition LINE_DX :: real where
  "LINE_DX = cos LINE_RAD"

definition LINE_DY :: real where
  "LINE_DY = - sin LINE_RAD"

record LineDist =
  entry :: real
  exit :: real

definition getLineDist :: "real \<Rightarrow> LineDist" where
  "getLineDist width = \<lparr>entry = max (width * 0.42) 200, exit = max (width * 0.32) 220\<rparr>"

definition entryTx :: "real \<Rightarrow> real" where
  "entryTx width = - LINE_DX * entry (getLineDist width)"

definition entryTy :: "real \<Rightarrow> real" where
  "entryTy width = - LINE_DY * entry (getLineDist width)"

definition exitTx :: "real \<Rightarrow> real" where
  "exitTx width = LINE_DX * exit (getLineDist width)"

definition exitTy :: "real \<Rightarrow> real" where
  "exitTy width = LINE_DY * exit (getLineDist width)"

definition flyInEnd :: real where
  "flyInEnd = 0.15"

definition holdEnd :: real where
  "holdEnd = 0.75"

text \<open>
  The local variables \<^verbatim>\<open>opacity\<close>, \<^verbatim>\<open>tx\<close>, \<^verbatim>\<open>ty\<close> and \<^verbatim>\<open>scale\<close> that the branches of the
  active slide assign.
\<close>

record motion =
  opacity :: real
  tx :: real
  ty :: real
  scale :: real

definition hold :: motion where
  "hold = \<lparr>opacity = 1, tx = 0, ty = 0, scale = 1\<rparr>"

definition flyIn :: "real \<Rightarrow> real \<Rightarrow> motion" where
  "flyIn width t =
     (let a = t / flyInEnd;
          eased = a * (2 - a)
      in \<lparr>opacity = clamp (eased * 1.4) 0 1,
          tx = lerp (entryTx width) 0 eased,
          ty = lerp (entryTy width) 0 eased,
          scale = lerp 0.25 1.0 eased\<rparr>)"

definition flyOut :: "real \<Rightarrow> real \<Rightarrow> motion" where
  "flyOut width t =
     (let ft = (t - holdEnd) / (1.0 - holdEnd);
          eased = ft * ft * (3 - 2 * ft)
      in \<lparr>opacity = clamp (1 - ft * 2.5) 0 1,
          tx = exitTx width * eased,
          ty = exitTy width * eased,
          scale = lerp 1.0 3.5 eased\<rparr>)"

text \<open>The branches of the active slide; \<open>n\<close> is \<^verbatim>\<open>slides.length\<close>.\<close>

definition activeMotion :: "real \<Rightarrow> nat \<Rightarrow> nat \<Rightarrow> real \<Rightarrow> motion" where
  "activeMotion width n index t =
     (let isHero = (index = 0)
      in if isHero then (if t < holdEnd then hold else flyOut width t)
         else (let isLastSlide = (int index = int n - 1)
               in if t < flyInEnd then flyIn width t
                  else if t < holdEnd \<or> isLastSlide then hold
                  else flyOut width t))"

text \<open>
  What is written to a slide: the class \<^verbatim>\<open>is-active\<close>, the opacity, and the numbers of
  \<^verbatim>\<open>translate(...) scale(...)\<close>. The style strings print these numbers with
  \<^verbatim>\<open>toFixed\<close>; the model keeps the numbers that are printed.
\<close>

record slide_style =
  is_active :: bool
  style_opacity :: real
  translateX :: real
  translateY :: real
  style_scale :: real

definition activeStyle :: "real \<Rightarrow> motion \<Rightarrow> slide_style" where
  "activeStyle width m =
     (let scaleExcess = max 0 (scale m - 1);
          scaleCompX = - scaleExcess * width * 0.18;
          scaleCompY = - scaleExcess * 8
      in \<lparr>is_active = True, style_opacity = opacity m,
          translateX = tx m + scaleCompX, translateY = ty m + scaleCompY,
          style_scale = scale m\<rparr>)"

definition activeIndex :: "nat \<Rightarrow> real \<Rightarrow> int" where
  "activeIndex n progress = \<lfloor>clamp progress 0 0.999 * real n\<rfloor>"

definition intraSlide :: "nat \<Rightarrow> real \<Rightarrow> real" where
  "intraSlide n progress = clamp progress 0 0.999 * real n - of_int (activeIndex n progress)"

definition updateSlide :: "real \<Rightarrow> nat \<Rightarrow> real \<Rightarrow> nat \<Rightarrow> slide_style" where
  "updateSlide width n progress index =
     (if int index = activeIndex n progress
      then activeStyle width (activeMotion width n index (intraSlide n progress))
      else if int index < activeIndex n progress
      then \<lparr>is_active = False, style_opacity = 0,
             translateX = exitTx width, translateY = exitTy width, style_scale = 3.5\<rparr>
      else \<lparr>is_active = False, style_opacity = 0,
             translateX = entryTx width, translateY = entryTy width, style_scale = 0.25\<rparr>)"

definition updateSlidesFlyThrough :: "real \<Rightarrow> nat \<Rightarrow> real \<Rightarrow> slide_style list" where
  "updateSlidesFlyThrough width n progress = map (updateSlide width n progress) [0..<n]"

text \<open>
  A translation lies on the line through (0,0) with direction (\<open>LINE_DX\<close>, \<open>LINE_DY\<close>)
  when its cross product with the direction vanishes.
\<close>

definition on_compass_line :: "real \<Rightarrow> real \<Rightarrow> bool" where
  "on_compass_line a b = (a * LINE_DY = b * LINE_DX)"

subsection \<open>The star field of a frame\<close>

text \<open>
  The closure variables that \<^verbatim>\<open>drawStarField\<close> reads, with \<^verbatim>\<open>config.stars\<close>.
\<close>

record star_env =
  e_width :: real
  e_height :: real
  e_spread :: real
  e_scrollEnergy :: real
  e_pointerEnergy :: real
  e_mouseX :: real
  e_mouseY :: real
  e_reduceMotion :: bool
  e_vStampReady :: bool
  e_stars :: "real StarsConfig"

text \<open>
  The canvas calls of the star loop, with their geometry and alpha. The stroke and fill
  colours (a blend of the palette sample with a near white) are not part of the model.
  \<open>StrokeLine x0 y0 x1 y1 lineWidth alpha\<close> is the streak, \<open>DrawImage x y size alpha\<close> the
  V-logo stamp, \<open>FillArc x y radius alpha\<close> the dot; \<open>FillVignette\<close> and \<open>FillHalo\<close> are
  the two gradients painted after the loop.
\<close>

datatype canvas_op =
    StrokeLine real real real real real real
  | DrawImage real real real real
  | FillArc real real real real
  | FillVignette
  | FillHalo real

definition speedStageMaxBoost :: real where
  "speedStageMaxBoost = 3.2"

definition starSpeed :: "star_env \<Rightarrow> real \<Rightarrow> real \<Rightarrow> real \<Rightarrow> real \<Rightarrow> real" where
  "starSpeed env warpStrength sequenceBoost stageSpeedNormalized orbitDampen =
     (let dynamicSpeed =
            (e_scrollEnergy env * 0.22 + e_pointerEnergy env * 0.08 + sequenceBoost * 1.12
               + stageSpeedNormalized * speedStageMaxBoost
               + warpStrength * warpBoost (e_stars env)) * orbitDampen
      in baseSpeed (e_stars env) + dynamicSpeed)"

definition advance :: "real \<Rightarrow> real \<Rightarrow> Star \<Rightarrow> Star" where
  "advance speed delta star =
     star\<lparr>star_z := star_z star - speed * delta * (8 + star_size star * 4)\<rparr>"

text \<open>The projection of a star: (\<open>sx\<close>, \<open>sy\<close>, \<open>depthMix\<close>).\<close>

definition project :: "star_env \<Rightarrow> Star \<Rightarrow> real \<times> real \<times> real" where
  "project env star =
     (let centerX = e_width env * 0.5;
          centerY = e_height env * 0.5;
          focal = max (e_width env) (e_height env) * 0.94;
          projection = focal / star_z star;
          depthMix = clamp (1 - star_z star / depth (e_stars env)) 0 1;
          parallax = 1 + depthMix * 1.8;
          sx = centerX + (star_x star + e_mouseX env * 28 * parallax) * projection;
          sy = centerY + (star_y star + e_mouseY env * 24 * parallax) * projection
      in (sx, sy, depthMix))"

definition offscreen :: "star_env \<Rightarrow> real \<times> real \<times> real \<Rightarrow> bool" where
  "offscreen env p =
     (case p of (sx, sy, depthMix) \<Rightarrow>
        sx < - 120 \<or> sx > e_width env + 120 \<or> sy < - 120 \<or> sy > e_height env + 120)"

text \<open>The drawing part of the loop body, for a star that was not skipped.\<close>

definition drawStar :: "star_env \<Rightarrow> real \<Rightarrow> Star \<Rightarrow> real \<times> real \<times> real \<Rightarrow> canvas_op list" where
  "drawStar env warpStrength star p =
     (case p of (sx, sy, depthMix) \<Rightarrow>
        (let alpha = clamp (0.12 + depthMix * 0.86 + warpStrength * 0.08) 0 1;
             radius = clamp (star_size star * (0.45 + depthMix * 1.9)) 0.35 3.2;
             streak =
               (if warpStrength > 0.07 \<and> initialized star \<and> \<not> e_reduceMotion env
                then (let streakAlpha = alpha * clamp (warpStrength * 1.05) 0 0.92
                      in [StrokeLine (prevX star) (prevY star) sx sy
                            (clamp (radius * 0.72) 0.35 1.8) streakAlpha])
                else []);
             mark =
               (if isVLogo star \<and> e_vStampReady env
                then (let vSize = radius * 7
                      in if vSize > 1.2
                         then [DrawImage (sx - vSize * 0.5) (sy - vSize * 0.5) vSize (alpha * 0.85)]
                         else [])
                else [FillArc sx sy radius alpha])
         in streak @ mark))"

text \<open>
  One iteration of the loop over the pool: the star, the position of the random source and
  the canvas calls it makes. \<^verbatim>\<open>continue\<close> ends the iteration after the second reset.
\<close>

definition starFrame ::
  "star_env \<Rightarrow> (nat \<Rightarrow> real) \<Rightarrow> real \<Rightarrow> real \<Rightarrow> real \<Rightarrow> Star \<Rightarrow> nat
     \<Rightarrow> Star \<times> nat \<times> canvas_op list" where
  "starFrame env rnd speed delta warpStrength star0 k =
     (let star1 = advance speed delta star0;
          (star2, k2) =
            (if star_z star1 \<le> 1
             then resetStar star1 (depth (e_stars env)) (e_spread env) rnd k
             else (star1, k));
          p = project env star2
      in if offscreen env p
         then (let (star3, k3) = resetStar star2 (depth (e_stars env)) (e_spread env) rnd k2
               in (star3, k3, []))
         else (star2\<lparr>prevX := fst p, prevY := fst (snd p), initialized := True\<rparr>, k2,
               drawStar env warpStrength star2 p))"

fun starLoop ::
  "star_env \<Rightarrow> (nat \<Rightarrow> real) \<Rightarrow> real \<Rightarrow> real \<Rightarrow> real \<Rightarrow> Star list \<Rightarrow> nat
     \<Rightarrow> Star list \<times> nat \<times> canvas_op list" where
  "starLoop env rnd speed delta warpStrength [] k = ([], k, [])"
| "starLoop env rnd speed delta warpStrength (star # rest) k =
     (case starFrame env rnd speed delta warpStrength star k of
        (star', k', ops) \<Rightarrow>
          (case starLoop env rnd speed delta warpStrength rest k' of
             (rest', k'', ops') \<Rightarrow> (star' # rest', k'', ops @ ops')))"


text \<open>
  The condition of the claims on recycling, on the star after its depth advance: it has
  passed the camera, or its projection lies more than 120 px outside the viewport.
\<close>

definition passed_or_left :: "star_env \<Rightarrow> Star \<Rightarrow> bool" where
  "passed_or_left env star1 = (star_z star1 \<le> 1 \<or> offscreen env (project env star1))"

definition is_streak :: "canvas_op \<Rightarrow> bool" where
  "is_streak c = (case c of StrokeLine x0 y0 x1 y1 w a \<Rightarrow> True | _ \<Rightarrow> False)"

definition is_stamp :: "canvas_op \<Rightarrow> bool" where
  "is_stamp c = (case c of DrawImage x y s a \<Rightarrow> True | _ \<Rightarrow> False)"

definition is_mark :: "canvas_op \<Rightarrow> bool" where
  "is_mark c = (case c of DrawImage x y s a \<Rightarrow> True | FillArc x y r a \<Rightarrow> True | _ \<Rightarrow> False)"

text \<open>A sample frame: a viewport, a far star that stays and a near star that passes the camera.\<close>

definition sample_env :: star_env where
  "sample_env =
     \<lparr>e_width = 1000, e_height = 800, e_spread = 1550, e_scrollEnergy = 0,
      e_pointerEnergy = 0, e_mouseX = 0, e_mouseY = 0, e_reduceMotion = False,
      e_vStampReady = False, e_stars = stars defaultConfig\<rparr>"

definition sample_far :: Star where
  "sample_far =
     \<lparr>star_x = 0, star_y = 0, star_z = 800, star_size = 1, tint = 1 / 2, prevX = 500,
      prevY = 400, initialized = True, isVLogo = False, rotation = 0\<rparr>"

definition sample_near :: Star where
  "sample_near = sample_far\<lparr>star_z := 2\<rparr>"



subsection \<open>Parsing the configuration attribute\<close>

text \<open>
  The values that \<^verbatim>\<open>JSON.parse\<close> can return, and \<^verbatim>\<open>undefined\<close> for a property that is
  not there. An object is the list of its own properties.
\<close>

datatype jsval =
    JUndefined
  | JNull
  | JBool bool
  | JNum real
  | JStr string
  | JArr "jsval list"
  | JObj "(string \<times> jsval) list"

text \<open>
  \<open>get_prop v name\<close> is the read \<^verbatim>\<open>v.name\<close> for a value \<open>v\<close> that is neither \<^verbatim>\<open>null\<close> nor
  \<^verbatim>\<open>undefined\<close>, and for a name that no prototype defines (as all names read by
  \<^verbatim>\<open>parseConfig\<close> are): the own property of an object, \<^verbatim>\<open>undefined\<close> otherwise.
  \<open>opt_prop v name\<close> is \<^verbatim>\<open>v?.name\<close>, and \<open>nullish_or a b\<close> is \<^verbatim>\<open>a ?? b\<close>.
\<close>

definition get_prop :: "jsval \<Rightarrow> string \<Rightarrow> jsval" where
  "get_prop v name =
     (case v of
        JObj kvs \<Rightarrow> (case map_of kvs name of None \<Rightarrow> JUndefined | Some w \<Rightarrow> w)
      | _ \<Rightarrow> JUndefined)"

definition nullish :: "jsval \<Rightarrow> bool" where
  "nullish v = (v = JUndefined \<or> v = JNull)"

definition opt_prop :: "jsval \<Rightarrow> string \<Rightarrow> jsval" where
  "opt_prop v name = (if nullish v then JUndefined else get_prop v name)"

definition nullish_or :: "jsval \<Rightarrow> jsval \<Rightarrow> jsval" where
  "nullish_or a b = (if nullish a then b else a)"

definition js_of_ring :: "RingConfig \<Rightarrow> jsval" where
  "js_of_ring r =
     JObj [(''radiusFactor'', JNum (radiusFactor r)), (''ellipseRatio'', JNum (ellipseRatio r)),
           (''ellipseRatioMobile'', JNum (ellipseRatioMobile r)),
           (''speedMultiplier'', JNum (speedMultiplier r)),
           (''tiltOffset'', JNum (tiltOffset r)), (''strokeAlpha'', JNum (strokeAlpha r))]"

text \<open>\<^verbatim>\<open>defaultConfig\<close> as a configuration of JavaScript values.\<close>

definition js_defaultConfig :: "(jsval, jsval) MotionConfig" where
  "js_defaultConfig =
     \<lparr>sequenceHeightDesktop = JNum (sequenceHeightDesktop defaultConfig),
      sequenceHeightMobile = JNum (sequenceHeightMobile defaultConfig),
      animation =
        \<lparr>revealDuration = JNum (revealDuration (animation defaultConfig)),
         revealY = JNum (revealY (animation defaultConfig)),
         magneticScale = JNum (magneticScale (animation defaultConfig))\<rparr>,
      stars =
        \<lparr>desktopCount = JNum (desktopCount (stars defaultConfig)),
         mobileCount = JNum (mobileCount (stars defaultConfig)),
         depth = JNum (depth (stars defaultConfig)),
         baseSpeed = JNum (baseSpeed (stars defaultConfig)),
         warpBoost = JNum (warpBoost (stars defaultConfig))\<rparr>,
      orbit =
        \<lparr>start = JNum (start (orbit defaultConfig)),
         full = JNum (full (orbit defaultConfig)),
         radiusDesktop = JNum (radiusDesktop (orbit defaultConfig)),
         radiusMobile = JNum (radiusMobile (orbit defaultConfig)),
         rings = JArr (map js_of_ring (rings (orbit defaultConfig)))\<rparr>\<rparr>"

text \<open>
  The object literal inside the \<^verbatim>\<open>try\<close> block. Its first read,
  \<^verbatim>\<open>parsed.sequenceHeightDesktop\<close>, throws a TypeError when \<open>parsed\<close> is \<^verbatim>\<open>null\<close>; all
  further reads are reads of \<open>parsed\<close> again or optional reads, which do not throw.
\<close>

definition build_config :: "jsval \<Rightarrow> js_error + (jsval, jsval) MotionConfig" where
  "build_config parsed =
     (if nullish parsed then Inl TypeError
      else Inr
        \<lparr>sequenceHeightDesktop =
           nullish_or (get_prop parsed ''sequenceHeightDesktop'')
             (sequenceHeightDesktop js_defaultConfig),
         sequenceHeightMobile =
           nullish_or (get_prop parsed ''sequenceHeightMobile'')
             (sequenceHeightMobile js_defaultConfig),
         animation =
           \<lparr>revealDuration =
              nullish_or (opt_prop (get_prop parsed ''animation'') ''revealDuration'')
                (revealDuration (animation js_defaultConfig)),
            revealY =
              nullish_or (opt_prop (get_prop parsed ''animation'') ''revealY'')
                (revealY (animation js_defaultConfig)),
            magneticScale =
              nullish_or (opt_prop (get_prop parsed ''animation'') ''magneticScale'')
                (magneticScale (animation js_defaultConfig))\<rparr>,
         stars =
           \<lparr>desktopCount =
              nullish_or (opt_prop (get_prop parsed ''stars'') ''desktopCount'')
                (desktopCount (stars js_defaultConfig)),
            mobileCount =
              nullish_or (opt_prop (get_prop parsed ''stars'') ''mobileCount'')
                (mobileCount (stars js_defaultConfig)),
            depth =
              nullish_or (opt_prop (get_prop parsed ''stars'') ''depth'')
                (depth (stars js_defaultConfig)),
            baseSpeed =
              nullish_or (opt_prop (get_prop parsed ''stars'') ''baseSpeed'')
                (baseSpeed (stars js_defaultConfig)),
            warpBoost =
              nullish_or (opt_prop (get_prop parsed ''stars'') ''warpBoost'')
                (warpBoost (stars js_defaultConfig))\<rparr>,
         orbit =
           \<lparr>start =
              nullish_or (opt_prop (get_prop parsed ''orbit'') ''start'')
                (start (orbit js_defaultConfig)),
            full =
              nullish_or (opt_prop (get_prop parsed ''orbit'') ''full'')
                (full (orbit js_defaultConfig)),
            radiusDesktop =
              nullish_or (opt_prop (get_prop parsed ''orbit'') ''radiusDesktop'')
                (radiusDesktop (orbit js_defaultConfig)),
            radiusMobile =
              nullish_or (opt_prop (get_prop parsed ''orbit'') ''radiusMobile'')
                (radiusMobile (orbit js_defaultConfig)),
            rings =
              nullish_or (opt_prop (get_prop parsed ''orbit'') ''rings'')
                (rings (orbit js_defaultConfig))\<rparr>\<rparr>)"

text \<open>
  \<^verbatim>\<open>parseConfig\<close>. The attribute is \<open>None\<close> when \<^verbatim>\<open>getAttribute\<close> returns \<^verbatim>\<open>null\<close>; the
  builtin \<^verbatim>\<open>JSON.parse\<close> is a parameter, with \<open>None\<close> for a SyntaxError. Whatever is thrown
  inside \<^verbatim>\<open>try\<close> is caught.
\<close>

definition parseConfig ::
  "(string \<Rightarrow> jsval option) \<Rightarrow> string option \<Rightarrow> (jsval, jsval) MotionConfig" where
  "parseConfig JSON_parse attr =
     (case attr of
        None \<Rightarrow> js_defaultConfig
      | Some raw \<Rightarrow>
          if raw = [] then js_defaultConfig
          else (case JSON_parse raw of
                  None \<Rightarrow> js_defaultConfig
                | Some parsed \<Rightarrow>
                    (case build_config parsed of
                       Inl e \<Rightarrow> js_defaultConfig
                     | Inr config \<Rightarrow> config)))"

text \<open>Every field of a configuration holds a value other than \<^verbatim>\<open>undefined\<close> and \<^verbatim>\<open>null\<close>.\<close>

definition populated :: "(jsval, jsval) MotionConfig \<Rightarrow> bool" where
  "populated c =
     (\<not> nullish (sequenceHeightDesktop c) \<and> \<not> nullish (sequenceHeightMobile c)
      \<and> \<not> nullish (revealDuration (animation c)) \<and> \<not> nullish (revealY (animation c))
      \<and> \<not> nullish (magneticScale (animation c))
      \<and> \<not> nullish (desktopCount (stars c)) \<and> \<not> nullish (mobileCount (stars c))
      \<and> \<not> nullish (depth (stars c)) \<and> \<not> nullish (baseSpeed (stars c))
      \<and> \<not> nullish (warpBoost (stars c))
      \<and> \<not> nullish (start (orbit c)) \<and> \<not> nullish (full (orbit c))
      \<and> \<not> nullish (radiusDesktop (orbit c)) \<and> \<not> nullish (radiusMobile (orbit c))
      \<and> \<not> nullish (rings (orbit c)))"

text \<open>
  A field of the result is filled from \<open>given\<close>: it is \<open>given\<close> unless that is missing
  (\<^verbatim>\<open>undefined\<close> or \<^verbatim>\<open>null\<close>), and the default otherwise.
\<close>

definition filled :: "jsval \<Rightarrow> jsval \<Rightarrow> jsval \<Rightarrow> bool" where
  "filled given dflt result = (if nullish given then result = dflt else result = given)"

subsection \<open>Assigning orbit nodes to rings\<close>

text \<open>
  A JavaScript string is the list of its UTF-16 code units; \<open>js_str\<close> gives the code units
  of an ASCII literal.
\<close>

type_synonym js_string = "nat list"

definition js_str :: "string \<Rightarrow> js_string" where
  "js_str s = map of_char s"

text \<open>
  The builtin \<^verbatim>\<open>parseInt(s, 10)\<close>: leading white space is skipped, one sign is read, and the
  longest run of decimal digits is the value; with no digit the result is NaN, here \<open>None\<close>.
  White space is what \<^verbatim>\<open>TrimString\<close> strips: TAB, LF, VT, FF, CR, the space, U+00A0, U+1680,
  U+2000 to U+200A, U+2028, U+2029, U+202F, U+205F, U+3000 and U+FEFF.
\<close>

definition is_space :: "nat \<Rightarrow> bool" where
  "is_space c =
     (c \<in> set [9, 10, 11, 12, 13, 32, 160, 5760, 8232, 8233, 8239, 8287, 12288, 65279]
      \<or> (8192 \<le> c \<and> c \<le> 8202))"

definition is_digit :: "nat \<Rightarrow> bool" where
  "is_digit c = (48 \<le> c \<and> c \<le> 57)"

definition digit_value :: "nat \<Rightarrow> nat" where
  "digit_value c = c - 48"

definition digits_value :: "js_string \<Rightarrow> nat" where
  "digits_value ds = foldl (\<lambda>acc c. 10 * acc + digit_value c) 0 ds"

definition parseInt10 :: "js_string \<Rightarrow> int option" where
  "parseInt10 s =
     (let t = dropWhile is_space s;
          negative = (t \<noteq> [] \<and> hd t = 45);
          u = (if t \<noteq> [] \<and> (hd t = 45 \<or> hd t = 43) then tl t else t);
          ds = takeWhile is_digit u
      in if ds = [] then None
         else Some (if negative then - int (digits_value ds) else int (digits_value ds)))"

text \<open>
  The ring index pushed for a node with \<^verbatim>\<open>dataset.ring\<close> equal to \<open>ringAttr\<close> (\<open>None\<close> when
  the attribute is absent; the empty string is falsy as well). \<open>None\<close> as a result is NaN.
\<close>

definition ring_index :: "js_string option \<Rightarrow> int option" where
  "ring_index ringAttr =
     (case ringAttr of
        None \<Rightarrow> Some 1
      | Some a \<Rightarrow> if a = [] then Some 1 else map_option (\<lambda>v. v - 1) (parseInt10 a))"

text \<open>
  \<^verbatim>\<open>ringBuckets[nodeRingAssignments[i]].push(i)\<close>: for an index that is NaN, negative or
  not below the number of rings the bucket is \<^verbatim>\<open>undefined\<close> and \<^verbatim>\<open>push\<close> throws a
  TypeError, which ends the loop.
\<close>

definition push_node ::
  "int option list \<Rightarrow> nat \<Rightarrow> js_error + nat list list \<Rightarrow> js_error + nat list list" where
  "push_node assignments i acc =
     (case acc of
        Inl e \<Rightarrow> Inl e
      | Inr ringBuckets \<Rightarrow>
          (case assignments ! i of
             None \<Rightarrow> Inl TypeError
           | Some r \<Rightarrow>
               if 0 \<le> r \<and> r < int (length ringBuckets)
               then Inr (ringBuckets[nat r := ringBuckets ! nat r @ [i]])
               else Inl TypeError))"

definition ring_angle :: "nat \<Rightarrow> nat \<Rightarrow> real" where
  "ring_angle posInRing len = real posInRing / real (max len 1) * pi * 2 - pi / 2"

text \<open>
  The inner \<^verbatim>\<open>forEach\<close> over a bucket writes \<^verbatim>\<open>orbitAngles[nodeIdx]\<close>. The array was made
  with \<^verbatim>\<open>new Array(orbitNodes.length)\<close>, so an element not yet written reads as \<open>None\<close>;
  every \<open>nodeIdx\<close> is the index of a node and so lies within the array.
\<close>

definition place_bucket :: "nat list \<Rightarrow> real option list \<Rightarrow> real option list" where
  "place_bucket bucket orbitAngles =
     fold (\<lambda>(posInRing, nodeIdx) angles.
             angles[nodeIdx := Some (ring_angle posInRing (length bucket))])
       (zip [0..<length bucket] bucket) orbitAngles"

text \<open>
  \<^verbatim>\<open>assignNodesToRings\<close>, for the \<^verbatim>\<open>data-ring\<close> attributes of the orbit nodes in document
  order and the number of configured rings: the new \<^verbatim>\<open>nodeRingAssignments\<close> and
  \<^verbatim>\<open>orbitAngles\<close>, or the TypeError.
\<close>

definition assignNodesToRings ::
  "nat \<Rightarrow> js_string option list \<Rightarrow> js_error + (int option list \<times> real option list)" where
  "assignNodesToRings ringCount attrs =
     (let nodeRingAssignments = map ring_index attrs
      in case fold (push_node nodeRingAssignments) [0..<length attrs]
                (Inr (replicate ringCount []))
         of Inl e \<Rightarrow> Inl e
          | Inr ringBuckets \<Rightarrow>
              Inr (nodeRingAssignments,
                   fold place_bucket ringBuckets (replicate (length attrs) None)))"

text \<open>
  The nodes before \<open>i\<close>, or among the first \<open>n\<close>, that are assigned the same ring as node
  \<open>i\<close>: the position of the node in its ring and the size of the ring.
\<close>

definition ring_mates :: "int option list \<Rightarrow> nat \<Rightarrow> nat \<Rightarrow> nat list" where
  "ring_mates assignments i n = filter (\<lambda>j. assignments ! j = assignments ! i) [0..<n]"

section \<open>Properties\<close>

subsection \<open>Scroll energy stays within bounds\<close>

lemma clamp_bounds: "lo \<le> hi \<Longrightarrow> lo \<le> clamp v lo hi \<and> clamp v lo hi \<le> hi"
  by (simp add: clamp_def)

lemma draw_energy_inv:
  assumes "0 \<le> scrollEnergy st" "scrollEnergy st \<le> 2"
  shows "0 \<le> scrollEnergy (draw_energy st) \<and> scrollEnergy (draw_energy st) \<le> 2"
  using assms by (simp add: draw_energy_def)

lemma onUpdate_inv:
  "0 \<le> scrollEnergy (onUpdate rm p v st) \<and> scrollEnergy (onUpdate rm p v st) \<le> 2"
proof -
  let ?st1 = "st\<lparr>scrollProgress := p,
                  scrollEnergy := clamp (scrollEnergy st + clamp (\<bar>v\<bar> / 3000) 0 1) 0 2\<rparr>"
  have b: "0 \<le> scrollEnergy ?st1 \<and> scrollEnergy ?st1 \<le> 2"
    using clamp_bounds [of 0 2] by simp
  show ?thesis
  proof (cases rm)
    case True
    then show ?thesis
      using draw_energy_inv [of ?st1] b by (simp add: onUpdate_def Let_def)
  next
    case False
    then show ?thesis using b by (simp add: onUpdate_def Let_def)
  qed
qed

lemma hero_step_inv:
  assumes "0 \<le> scrollEnergy st" "scrollEnergy st \<le> 2"
  shows "0 \<le> scrollEnergy (hero_step rm st ev) \<and> scrollEnergy (hero_step rm st ev) \<le> 2"
proof (cases ev)
  case (ScrollUpdate p v)
  then show ?thesis using onUpdate_inv by simp
next
  case AnimationFrame
  then show ?thesis using draw_energy_inv [OF assms] by simp
qed

lemma foldl_hero_step_inv:
  "0 \<le> scrollEnergy st \<Longrightarrow> scrollEnergy st \<le> 2 \<Longrightarrow>
   0 \<le> scrollEnergy (foldl (hero_step rm) st evs) \<and> scrollEnergy (foldl (hero_step rm) st evs) \<le> 2"
proof (induction evs arbitrary: st)
  case Nil
  then show ?case by simp
next
  case (Cons ev evs)
  then show ?case using hero_step_inv [of st rm ev] by simp
qed

text \<open>
  C7. Starting from the initial value 0, whatever sequence of ScrollTrigger updates (with
  any progress and velocity) and animation frames is run, with or without reduced motion,
  \<^verbatim>\<open>scrollEnergy\<close> lies in the interval [0, 2]. An update adds
  \<open>clamp (|velocity| / 3000) 0 1\<close> and clamps the sum to [0, 2]; a frame replaces the
  energy by \<open>max 0 (energy * 0.94 - 0.002)\<close>.
\<close>

theorem scrollEnergy_bounded:
  "0 \<le> scrollEnergy (hero_run rm evs) \<and> scrollEnergy (hero_run rm evs) \<le> 2
   \<and> scrollEnergy (hero_step False st (ScrollUpdate p v))
       = clamp (scrollEnergy st + clamp (\<bar>v\<bar> / 3000) 0 1) 0 2
   \<and> scrollEnergy (hero_step rm st AnimationFrame) = max 0 (scrollEnergy st * 0.94 - 0.002)"
proof -
  have "0 \<le> scrollEnergy (hero_run rm evs) \<and> scrollEnergy (hero_run rm evs) \<le> 2"
    unfolding hero_run_def
    by (rule foldl_hero_step_inv) (simp_all add: initial_scroll_def)
  then show ?thesis by (simp add: onUpdate_def draw_energy_def)
qed

subsection \<open>The orbit clock under a hover pause\<close>

lemma getOrbitTime_paused:
  "orbitPaused st \<Longrightarrow> getOrbitTime st nowSeconds = pauseStartTime st - pauseTimeOffset st"
  by (simp add: getOrbitTime_def)

lemma getOrbitTime_pause_resume:
  "getOrbitTime (resumeOrbit r (pauseOrbit p st)) r = getOrbitTime st p"
  by (simp add: getOrbitTime_def resumeOrbit_def pauseOrbit_def)

text \<open>
  C5. While \<^verbatim>\<open>orbitPaused\<close> is true, \<open>getOrbitTime now\<close> is
  \<open>pauseStartTime - pauseTimeOffset\<close> for every \<open>now\<close>, so the time-driven term of
  \<^verbatim>\<open>computeBaseSpin\<close> takes the same value at any two times and the spin no longer depends on
  the clock. During a pause begun at time \<open>p\<close> the orbit time is the value it had at
  \<open>p\<close>, and after \<^verbatim>\<open>resumeOrbit\<close> at time \<open>r\<close> the orbit time at \<open>r\<close> is again that
  value: there is no jump.
\<close>

theorem orbit_time_frozen_while_paused:
  "(orbitPaused st \<longrightarrow>
      getOrbitTime st nowSeconds = pauseStartTime st - pauseTimeOffset st
      \<and> baseRate rm st nowSeconds m = baseRate rm st later m
      \<and> computeBaseSpin rm sp off st nowSeconds m = computeBaseSpin rm sp off st later m)
   \<and> getOrbitTime (pauseOrbit p st) nowSeconds
       = (if orbitPaused st then getOrbitTime st nowSeconds else getOrbitTime st p)
   \<and> getOrbitTime (resumeOrbit r (pauseOrbit p st)) r = getOrbitTime st p
   \<and> \<not> orbitPaused (resumeOrbit r (pauseOrbit p st))"
proof -
  have a: "orbitPaused st \<longrightarrow>
      getOrbitTime st nowSeconds = pauseStartTime st - pauseTimeOffset st
      \<and> baseRate rm st nowSeconds m = baseRate rm st later m
      \<and> computeBaseSpin rm sp off st nowSeconds m = computeBaseSpin rm sp off st later m"
    by (simp add: getOrbitTime_paused baseRate_def computeBaseSpin_def)
  have b: "getOrbitTime (pauseOrbit p st) nowSeconds
       = (if orbitPaused st then getOrbitTime st nowSeconds else getOrbitTime st p)"
    by (simp add: getOrbitTime_def pauseOrbit_def)
  have c: "\<not> orbitPaused (resumeOrbit r (pauseOrbit p st))"
    by (simp add: resumeOrbit_def pauseOrbit_def)
  show ?thesis
    using a b c getOrbitTime_pause_resume [of r p st] by simp
qed

theorem orbit_time_frozen_witness:
  "orbitPaused \<lparr>orbitPaused = True, pauseTimeOffset = 2, pauseStartTime = 10\<rparr>
   \<and> getOrbitTime \<lparr>orbitPaused = True, pauseTimeOffset = 2, pauseStartTime = 10\<rparr> 25 = 8
   \<and> getOrbitTime (resumeOrbit 40 (pauseOrbit 10
        \<lparr>orbitPaused = True, pauseTimeOffset = 2, pauseStartTime = 10\<rparr>)) 40 = 8"
  using orbit_time_frozen_while_paused
    [where st = "\<lparr>orbitPaused = True, pauseTimeOffset = 2, pauseStartTime = 10\<rparr>"
       and nowSeconds = 25 and later = 31 and p = 10 and r = 40 and rm = False and m = 1
       and sp = 0 and off = 0]
  by (simp add: getOrbitTime_def pauseOrbit_def resumeOrbit_def)

subsection \<open>Size of the star pool\<close>

lemma finalCount_ge: "220 \<le> finalCount config isMobile lowPowerDevice"
  by (simp add: finalCount_def Let_def)

lemma finalCount_nat:
  "real (nat \<lfloor>finalCount config isMobile lowPowerDevice\<rfloor>)
     = finalCount config isMobile lowPowerDevice
   \<and> 220 \<le> nat \<lfloor>finalCount config isMobile lowPowerDevice\<rfloor>"
proof -
  let ?n = "finalCount config isMobile lowPowerDevice"
  have "?n \<in> \<int>" by (simp add: finalCount_def Let_def max_def)
  then have i: "of_int \<lfloor>?n\<rfloor> = ?n" by (auto simp: Ints_def)
  have ge: "220 \<le> \<lfloor>?n\<rfloor>"
    using finalCount_ge [of config isMobile lowPowerDevice] by (simp add: le_floor_iff)
  then have "real (nat \<lfloor>?n\<rfloor>) = of_int \<lfloor>?n\<rfloor>" by simp
  also have "\<dots> = ?n" by (rule i)
  finally have r: "real (nat \<lfloor>?n\<rfloor>) = ?n" .
  have "nat 220 \<le> nat \<lfloor>?n\<rfloor>" using ge by (intro nat_mono) simp
  then have "220 \<le> nat \<lfloor>?n\<rfloor>" by simp
  then show ?thesis using r by blast
qed

lemma createStars_within:
  "nat \<lfloor>c\<rfloor> \<le> MAX_ARRAY_LENGTH \<Longrightarrow>
   createStars (Some c) dep spread rnd k
     = Inr (map (\<lambda>i. createStar rnd (k + 7 * i) dep spread) [0..<nat \<lfloor>c\<rfloor>],
            k + 7 * nat \<lfloor>c\<rfloor>)"
  by (simp add: createStars_def Let_def)

lemma createStars_too_long:
  "MAX_ARRAY_LENGTH < nat \<lfloor>c\<rfloor> \<Longrightarrow> createStars (Some c) dep spread rnd k = Inl RangeError"
  by (simp add: createStars_def Let_def)

lemma createStars_NaN: "createStars None dep spread rnd k = Inr ([], k)"
  by (simp add: createStars_def Let_def MAX_ARRAY_LENGTH_def)

lemma rebuildStars_cases:
  fixes config :: "(real, 'r) MotionConfig" and isMobile lowPowerDevice :: bool
  defines "n \<equiv> nat \<lfloor>finalCount config isMobile lowPowerDevice\<rfloor>"
  shows "rebuildStars config isMobile lowPowerDevice width height rnd k
         = (if MAX_ARRAY_LENGTH < n then Inl RangeError
            else Inr (max width height * 1.55,
                      map (\<lambda>i. createStar rnd (k + 7 * i) (depth (stars config))
                                  (max width height * 1.55)) [0..<n],
                      k + 7 * n))"
  unfolding n_def rebuildStars_def Let_def
  by (simp add: createStars_within createStars_too_long)

text \<open>
  C10 (amended). Let \<open>count\<close> be \<open>max 220 (round (configuredCount * powerMultiplier))\<close>,
  where \<open>configuredCount\<close> is the mobile or the desktop count of a numeric configuration and
  \<open>powerMultiplier\<close> is 0.62 on a low-power device and 1 otherwise. For every viewport size
  and state of the random source: when \<open>count\<close> is at most \<open>2^32 - 1 = 4294967295\<close>,
  \<^verbatim>\<open>rebuildStars\<close> builds a pool of exactly \<open>count\<close> stars, hence of at least 220 stars, and
  of exactly 220 when the configured count is 0; when \<open>count\<close> is larger, \<^verbatim>\<open>Array.from\<close>
  throws a RangeError and no pool is built. (A count that is not a number is outside a
  numeric configuration: for a NaN count \<^verbatim>\<open>createStars\<close> returns the empty pool.)
\<close>

theorem rebuildStars_pool_size:
  fixes config :: "(real, 'r) MotionConfig" and width height :: real
    and isMobile lowPowerDevice :: bool
  defines "count \<equiv> max 220 (of_int (round
                    ((if isMobile then mobileCount (stars config)
                      else desktopCount (stars config))
                     * (if lowPowerDevice then 0.62 else 1))))"
  shows "(count \<le> 4294967295 \<longrightarrow>
            (\<exists>pool k'. rebuildStars config isMobile lowPowerDevice width height rnd k
                          = Inr (max width height * 1.55, pool, k')
                        \<and> real (length pool) = count \<and> 220 \<le> length pool))
    \<and> (4294967295 < count \<longrightarrow>
            rebuildStars config isMobile lowPowerDevice width height rnd k = Inl RangeError)
    \<and> ((if isMobile then mobileCount (stars config) else desktopCount (stars config)) = 0
          \<longrightarrow> (\<exists>pool k'. rebuildStars config isMobile lowPowerDevice width height rnd k
                          = Inr (max width height * 1.55, pool, k')
                        \<and> length pool = 220))
    \<and> createStars None dep spread rnd k = Inr ([], k)"
proof -
  let ?n = "nat \<lfloor>finalCount config isMobile lowPowerDevice\<rfloor>"
  have c: "count = finalCount config isMobile lowPowerDevice"
    by (simp add: count_def finalCount_def Let_def)
  have rn: "real ?n = count" and ge: "220 \<le> ?n"
    using finalCount_nat [of config isMobile lowPowerDevice] c by simp_all
  have lim: "count \<le> 4294967295 \<longleftrightarrow> ?n \<le> MAX_ARRAY_LENGTH"
  proof -
    have "real ?n \<le> real (4294967295 :: nat) \<longleftrightarrow> ?n \<le> 4294967295"
      by (rule of_nat_le_iff)
    then show ?thesis using rn by (simp add: MAX_ARRAY_LENGTH_def)
  qed
  note rc = rebuildStars_cases [where config = config and isMobile = isMobile
      and lowPowerDevice = lowPowerDevice and width = width and height = height and rnd = rnd
      and k = k]
  have a: "count \<le> 4294967295 \<longrightarrow>
            (\<exists>pool k'. rebuildStars config isMobile lowPowerDevice width height rnd k
                          = Inr (max width height * 1.55, pool, k')
                        \<and> real (length pool) = count \<and> 220 \<le> length pool)"
  proof
    assume "count \<le> 4294967295"
    then have "\<not> MAX_ARRAY_LENGTH < ?n" using lim by simp
    then have "rebuildStars config isMobile lowPowerDevice width height rnd k
        = Inr (max width height * 1.55,
               map (\<lambda>i. createStar rnd (k + 7 * i) (depth (stars config))
                           (max width height * 1.55)) [0..<?n],
               k + 7 * ?n)"
      using rc by simp
    moreover have "real (length (map (\<lambda>i. createStar rnd (k + 7 * i) (depth (stars config))
                           (max width height * 1.55)) [0..<?n])) = count"
      using rn by simp
    moreover have "220 \<le> length (map (\<lambda>i. createStar rnd (k + 7 * i) (depth (stars config))
                           (max width height * 1.55)) [0..<?n])"
      using ge by simp
    ultimately show "\<exists>pool k'. rebuildStars config isMobile lowPowerDevice width height rnd k
                          = Inr (max width height * 1.55, pool, k')
                        \<and> real (length pool) = count \<and> 220 \<le> length pool"
      by blast
  qed
  have b: "4294967295 < count \<longrightarrow>
            rebuildStars config isMobile lowPowerDevice width height rnd k = Inl RangeError"
    using rc lim by auto
  have z: "(if isMobile then mobileCount (stars config) else desktopCount (stars config)) = 0
          \<longrightarrow> (\<exists>pool k'. rebuildStars config isMobile lowPowerDevice width height rnd k
                          = Inr (max width height * 1.55, pool, k')
                        \<and> length pool = 220)"
  proof
    assume "(if isMobile then mobileCount (stars config) else desktopCount (stars config)) = 0"
    then have c220: "count = 220" by (simp add: count_def split: if_splits)
    then have "count \<le> 4294967295" by simp
    then obtain pool k' where r: "rebuildStars config isMobile lowPowerDevice width height rnd k
                          = Inr (max width height * 1.55, pool, k')"
      and l: "real (length pool) = count"
      using a by blast
    have "length pool = 220" using l c220 by simp
    then show "\<exists>pool k'. rebuildStars config isMobile lowPowerDevice width height rnd k
                          = Inr (max width height * 1.55, pool, k')
                        \<and> length pool = 220"
      using r by blast
  qed
  note nan = createStars_NaN [of dep spread rnd k]
  show ?thesis using a b z nan by blast
qed

theorem rebuildStars_pool_size_witness:
  "(\<exists>pool k'. rebuildStars (defaultConfig\<lparr>stars := (stars defaultConfig)\<lparr>desktopCount := 0\<rparr>\<rparr>)
                  False True 1440 900 (\<lambda>n. 1 / 2) 0 = Inr (max 1440 900 * 1.55, pool, k')
               \<and> length pool = 220)
   \<and> (\<exists>pool k'. rebuildStars defaultConfig False True 1440 900 (\<lambda>n. 1 / 2) 0
                    = Inr (max 1440 900 * 1.55, pool, k')
                 \<and> real (length pool) = 533)"
proof -
  have a: "\<exists>pool k'. rebuildStars (defaultConfig\<lparr>stars := (stars defaultConfig)\<lparr>desktopCount := 0\<rparr>\<rparr>)
                  False True 1440 900 (\<lambda>n. 1 / 2) 0 = Inr (max 1440 900 * 1.55, pool, k')
               \<and> length pool = 220"
    using rebuildStars_pool_size
      [where config = "defaultConfig\<lparr>stars := (stars defaultConfig)\<lparr>desktopCount := 0\<rparr>\<rparr>"
         and isMobile = False and lowPowerDevice = True and width = 1440 and height = 900
         and rnd = "\<lambda>n. 1 / 2" and k = 0 and dep = 1600 and spread = 2232]
    by (simp add: defaultConfig_def)
  have r: "round (860 * 0.62 :: real) = 533"
    by (simp add: round_def)
  have b: "\<exists>pool k'. rebuildStars defaultConfig False True 1440 900 (\<lambda>n. 1 / 2) 0
                    = Inr (max 1440 900 * 1.55, pool, k')
                 \<and> real (length pool) = 533"
    using rebuildStars_pool_size
      [where config = defaultConfig
         and isMobile = False and lowPowerDevice = True and width = 1440 and height = 900
         and rnd = "\<lambda>n. 1 / 2" and k = 0 and dep = 1600 and spread = 2232] r
    by (auto simp add: defaultConfig_def)
  show ?thesis using a b by blast
qed

text \<open>
  C10 as stated fails for a large configured count: with \<^verbatim>\<open>desktopCount = 10000000000\<close> on
  a desktop device that is not low-power, the final count exceeds the largest array length
  and \<^verbatim>\<open>rebuildStars\<close> ends in a RangeError instead of building a pool.
\<close>

theorem rebuildStars_range_error_counterexample:
  "rebuildStars (defaultConfig\<lparr>stars := (stars defaultConfig)\<lparr>desktopCount := 10000000000\<rparr>\<rparr>)
     False False 1440 900 (\<lambda>n. 1 / 2) 0 = Inl RangeError"
proof -
  have f: "finalCount (defaultConfig\<lparr>stars := (stars defaultConfig)\<lparr>desktopCount := 10000000000\<rparr>\<rparr>)
             False False = 10000000000"
    by (simp add: finalCount_def Let_def)
  have "MAX_ARRAY_LENGTH < nat \<lfloor>10000000000 :: real\<rfloor>" by (simp add: MAX_ARRAY_LENGTH_def)
  then show ?thesis
    unfolding rebuildStars_def Let_def f by (simp add: createStars_too_long)
qed

subsection \<open>The stage blend\<close>

lemma length_stageThemes: "length stageThemes = 3"
  by (simp add: stageThemes_def)

lemma slideProgress_bounds:
  "0 \<le> slideProgress orbitStart progress \<and> slideProgress orbitStart progress \<le> 1"
  by (simp add: slideProgress_def clamp_def)

lemma stageValue_bounds:
  "0 \<le> stageValue orbitStart progress \<and> stageValue orbitStart progress \<le> 2"
  using slideProgress_bounds [of orbitStart progress]
  by (simp add: stageValue_def length_stageThemes)

lemma stageLower_bounds:
  "0 \<le> stageLower orbitStart progress \<and> stageLower orbitStart progress \<le> 2"
proof -
  have "\<lfloor>stageValue orbitStart progress\<rfloor> \<le> \<lfloor>2::real\<rfloor>"
    using stageValue_bounds [of orbitStart progress] by (intro floor_mono) simp
  then show ?thesis
    using stageValue_bounds [of orbitStart progress] by (simp add: stageLower_def)
qed

lemma stageUpper_eq:
  "stageUpper orbitStart progress = min 2 (stageLower orbitStart progress + 1)"
  by (simp add: stageUpper_def length_stageThemes)

lemma stageMix_bounds:
  "0 \<le> stageMix orbitStart progress \<and> stageMix orbitStart progress < 1"
  unfolding stageMix_def stageLower_def by linarith

lemma theme_at_in_range:
  "0 \<le> i \<Longrightarrow> i \<le> 2 \<Longrightarrow> theme_at i = Some (stageThemes ! nat i)"
  by (simp add: theme_at_def length_stageThemes)

text \<open>
  C6 (amended). For every scroll progress (in [0,1] or not) and every value of
  \<^verbatim>\<open>config.orbit.start\<close>, \<open>stageLower\<close> is 0, 1 or 2, \<open>stageUpper\<close> is
  \<open>min 2 (stageLower + 1)\<close>, and \<open>stageMix\<close> lies in [0, 1); both indices are valid
  indices of the three-element \<^verbatim>\<open>stageThemes\<close>, so no read is out of bounds and no
  TypeError arises. \<^verbatim>\<open>drawAtmosphere\<close> blends the background (\<open>base\<close>) and the two hazes of
  the two adjacent themes with \<open>stageMix\<close>; the star palette is not blended: it is the
  palette of the theme \<open>stageUpper\<close> alone.
\<close>

theorem stage_blend_in_bounds:
  "0 \<le> stageLower orbitStart progress \<and> stageLower orbitStart progress \<le> 2
   \<and> stageUpper orbitStart progress = min 2 (stageLower orbitStart progress + 1)
   \<and> 0 \<le> stageMix orbitStart progress \<and> stageMix orbitStart progress < 1
   \<and> nat (stageLower orbitStart progress) < length stageThemes
   \<and> nat (stageUpper orbitStart progress) < length stageThemes
   \<and> draw_atmosphere orbitStart progress
       = Inr (drawAtmosphere (stageThemes ! nat (stageLower orbitStart progress))
                (stageThemes ! nat (stageUpper orbitStart progress))
                (stageMix orbitStart progress))
   \<and> backdropBottom (drawAtmosphere themeA themeB mix)
       = lerpColor (base themeA) (base themeB) mix
   \<and> glowA (drawAtmosphere themeA themeB mix) = lerpColor (hazeA themeA) (hazeA themeB) mix
   \<and> glowB (drawAtmosphere themeA themeB mix) = lerpColor (hazeB themeA) (hazeB themeB) mix
   \<and> draw_star_palette orbitStart progress
       = Inr (palette (stageThemes ! nat (stageUpper orbitStart progress)))"
proof -
  let ?lo = "stageLower orbitStart progress" and ?up = "stageUpper orbitStart progress"
  have lo: "0 \<le> ?lo \<and> ?lo \<le> 2" by (rule stageLower_bounds)
  have up: "?up = min 2 (?lo + 1)" by (rule stageUpper_eq)
  have upb: "0 \<le> ?up \<and> ?up \<le> 2" using lo up by simp
  have tl: "theme_at ?lo = Some (stageThemes ! nat ?lo)"
    using lo by (simp add: theme_at_in_range)
  have tu: "theme_at ?up = Some (stageThemes ! nat ?up)"
    using upb by (simp add: theme_at_in_range)
  have a: "draw_atmosphere orbitStart progress
       = Inr (drawAtmosphere (stageThemes ! nat ?lo) (stageThemes ! nat ?up)
                (stageMix orbitStart progress))"
    by (simp add: draw_atmosphere_def tl tu)
  have p: "draw_star_palette orbitStart progress = Inr (palette (stageThemes ! nat ?up))"
    by (simp add: draw_star_palette_def tu)
  have n1: "nat ?lo < length stageThemes" using lo unfolding length_stageThemes by linarith
  have n2: "nat ?up < length stageThemes" using upb unfolding length_stageThemes by linarith
  have d: "backdropBottom (drawAtmosphere themeA themeB mix)
             = lerpColor (base themeA) (base themeB) mix
         \<and> glowA (drawAtmosphere themeA themeB mix) = lerpColor (hazeA themeA) (hazeA themeB) mix
         \<and> glowB (drawAtmosphere themeA themeB mix) = lerpColor (hazeB themeA) (hazeB themeB) mix"
    by (simp add: drawAtmosphere_def Let_def split: prod.splits)
  show ?thesis
    using lo up stageMix_bounds [of orbitStart progress] n1 n2 a p d by simp
qed

lemma stage_at_015:
  "stageLower 0.62 0.15 = 0 \<and> stageUpper 0.62 0.15 = 1 \<and> stageMix 0.62 0.15 = 1 / 2"
proof -
  have v: "stageValue 0.62 0.15 = 1 / 2"
    by (simp add: stageValue_def slideProgress_def slideWindow_def clamp_def length_stageThemes)
  have l: "stageLower 0.62 0.15 = 0" unfolding stageLower_def v by simp
  have u: "stageUpper 0.62 0.15 = 1" unfolding stageUpper_def l length_stageThemes by simp
  have m: "stageMix 0.62 0.15 = 1 / 2" unfolding stageMix_def l v by simp
  show ?thesis using l u m by blast
qed

text \<open>
  C6 as stated fails in its palette clause. With the default \<^verbatim>\<open>orbit.start = 0.62\<close> and
  scroll progress 0.15 the frame lies half way between themes 0 and 1, and the palette given
  to the star field is the palette of theme 1, not the blend of the two palettes.
\<close>

theorem palette_not_blended_counterexample:
  "stageLower 0.62 0.15 = 0 \<and> stageUpper 0.62 0.15 = 1 \<and> stageMix 0.62 0.15 = 1 / 2
   \<and> draw_star_palette 0.62 0.15 = Inr (palette (stageThemes ! 1))
   \<and> draw_star_palette 0.62 0.15
       \<noteq> Inr (spec_blended_palette (stageThemes ! 0) (stageThemes ! 1) (stageMix 0.62 0.15))"
proof -
  have t: "theme_at 1 = Some (stageThemes ! 1)"
    using theme_at_in_range [of 1] by simp
  have u: "stageUpper 0.62 0.15 = 1" using stage_at_015 by blast
  have m: "stageMix 0.62 0.15 = 1 / 2" using stage_at_015 by blast
  have p: "draw_star_palette 0.62 0.15 = Inr (palette (stageThemes ! 1))"
    unfolding draw_star_palette_def u t by simp
  have "fst (hd (spec_blended_palette (stageThemes ! 0) (stageThemes ! 1) (1 / 2))) = 148"
    by (simp add: spec_blended_palette_def stageThemes_def lerpColor_def lerp_def)
  moreover have "fst (hd (palette (stageThemes ! 1))) = 151"
    by (simp add: stageThemes_def)
  ultimately have "palette (stageThemes ! 1)
      \<noteq> spec_blended_palette (stageThemes ! 0) (stageThemes ! 1) (1 / 2)"
    by auto
  then have "draw_star_palette 0.62 0.15
       \<noteq> Inr (spec_blended_palette (stageThemes ! 0) (stageThemes ! 1) (stageMix 0.62 0.15))"
    unfolding p m by simp
  then show ?thesis using p stage_at_015 by blast
qed

subsection \<open>The title sequencer: phases of the active slide\<close>




lemma intraSlide_bounds: "0 \<le> intraSlide n progress \<and> intraSlide n progress < 1"
  unfolding intraSlide_def activeIndex_def by linarith

lemma nth_updateSlidesFlyThrough:
  "index < n \<Longrightarrow>
   updateSlidesFlyThrough width n progress ! index = updateSlide width n progress index"
  by (simp add: updateSlidesFlyThrough_def)

lemma length_updateSlidesFlyThrough: "length (updateSlidesFlyThrough width n progress) = n"
  by (simp add: updateSlidesFlyThrough_def)

lemma ease_out_bounds:
  fixes a :: real
  assumes "0 \<le> a" "a < 1"
  shows "0 \<le> a * (2 - a) \<and> a * (2 - a) < 1"
proof -
  have "1 - a * (2 - a) = (1 - a) * (1 - a)" by (simp add: algebra_simps)
  moreover have "0 < (1 - a) * (1 - a)" using assms by simp
  moreover have "0 \<le> a * (2 - a)" using assms by simp
  ultimately show ?thesis by linarith
qed


lemma lerp_bounds:
  assumes "a < b" "0 \<le> e" "e < 1"
  shows "a \<le> lerp a b e \<and> lerp a b e < b"
proof -
  have "0 \<le> (b - a) * e" using assms by simp
  moreover have "(b - a) * e < b - a"
    using mult_strict_left_mono [of e 1 "b - a"] assms by simp
  ultimately show ?thesis unfolding lerp_def by linarith
qed

lemma activeStyle_no_excess:
  "scale m \<le> 1 \<Longrightarrow>
   activeStyle width m = \<lparr>is_active = True, style_opacity = opacity m,
      translateX = tx m, translateY = ty m, style_scale = scale m\<rparr>"
  by (simp add: activeStyle_def Let_def max_def)

lemma activeStyle_excess:
  "1 \<le> scale m \<Longrightarrow>
   activeStyle width m = \<lparr>is_active = True, style_opacity = opacity m,
      translateX = tx m - (scale m - 1) * width * 0.18,
      translateY = ty m - (scale m - 1) * 8, style_scale = scale m\<rparr>"
  by (simp add: activeStyle_def Let_def max_def)

lemma flyIn_values:
  assumes "0 \<le> t" "t < 0.15"
  shows "(let e = t / 0.15 * (2 - t / 0.15)
          in 0 \<le> e \<and> e < 1
             \<and> scale (flyIn width t) = lerp 0.25 1 e
             \<and> 0.25 \<le> scale (flyIn width t) \<and> scale (flyIn width t) < 1
             \<and> tx (flyIn width t) = lerp (entryTx width) 0 e
             \<and> ty (flyIn width t) = lerp (entryTy width) 0 e
             \<and> opacity (flyIn width t) = clamp (e * 1.4) 0 1)"
proof -
  let ?a = "t / 0.15"
  have a: "0 \<le> ?a" "?a < 1" using assms by simp_all
  have e: "0 \<le> ?a * (2 - ?a) \<and> ?a * (2 - ?a) < 1" by (rule ease_out_bounds [OF a])
  have s: "scale (flyIn width t) = lerp 0.25 1 (?a * (2 - ?a))"
    by (simp add: flyIn_def Let_def flyInEnd_def)
  have sb: "0.25 \<le> lerp 0.25 1 (?a * (2 - ?a)) \<and> lerp 0.25 1 (?a * (2 - ?a)) < 1"
    using e lerp_bounds [of "0.25" 1 "?a * (2 - ?a)"] by simp
  show ?thesis
    unfolding Let_def using e s sb by (simp add: flyIn_def Let_def flyInEnd_def)
qed







lemma progress_samples:
  "activeIndex 4 0.26 = 1" "intraSlide 4 0.26 = 1 / 25"
  "activeIndex 4 0.375 = 1" "intraSlide 4 0.375 = 1 / 2"
  "activeIndex 4 0.24 = 0" "intraSlide 4 0.24 = 24 / 25"
  by (simp_all add: activeIndex_def intraSlide_def clamp_def)


subsection \<open>The compass line\<close>

lemma LINE_RAD_eq: "LINE_RAD = - (pi + pi / 9)"
  by (simp add: LINE_RAD_def field_simps)

lemma cos_pi_plus: "cos (pi + u) = - cos u"
  using cos_add [of pi u] by simp

lemma sin_pi_plus: "sin (pi + u) = - sin u"
  using sin_add [of pi u] by simp

lemma cos_pi_minus: "cos (pi - u) = - cos u"
  using cos_diff [of pi u] by simp

lemma sin_pi_minus: "sin (pi - u) = sin u"
  using sin_diff [of pi u] by simp

lemma LINE_DX_eq: "LINE_DX = - cos (pi / 9)"
  unfolding LINE_DX_def LINE_RAD_eq by (simp only: cos_minus cos_pi_plus)

lemma LINE_DY_eq: "LINE_DY = - sin (pi / 9)"
  unfolding LINE_DY_def LINE_RAD_eq by (simp only: sin_minus sin_pi_plus minus_minus)

lemma line_direction_160:
  "LINE_DX = cos (160 * (pi / 180)) \<and> LINE_DY = - sin (160 * (pi / 180))"
proof -
  have e: "160 * (pi / 180) = pi - pi / 9" by (simp add: field_simps)
  show ?thesis by (simp only: e LINE_DX_eq LINE_DY_eq cos_pi_minus sin_pi_minus)
qed

lemma sin_20_ge: "1 / 4 \<le> sin (pi / 9)"
proof -
  have "sin (pi / 6) \<le> sin (2 * (pi / 9))"
    by (intro sin_monotone_2pi_le) (simp_all add: field_simps)
  then have "1 / 2 \<le> 2 * sin (pi / 9) * cos (pi / 9)"
    by (simp only: sin_30 sin_double)
  moreover have "0 \<le> sin (pi / 9)"
    by (intro sin_ge_zero) (simp_all add: field_simps)
  then have "2 * sin (pi / 9) * cos (pi / 9) \<le> 2 * sin (pi / 9) * 1"
    by (intro mult_left_mono) simp_all
  ultimately show ?thesis by simp
qed

lemma LINE_DY_le: "LINE_DY \<le> - (1 / 4)"
  using sin_20_ge by (simp add: LINE_DY_eq)

lemma LINE_DX_bounds: "- 1 \<le> LINE_DX \<and> LINE_DX < 0"
proof -
  have "0 < cos (pi / 9)" by (intro cos_gt_zero_pi) (simp_all add: field_simps)
  then show ?thesis by (simp add: LINE_DX_eq)
qed

lemma on_compass_line_iff:
  "on_compass_line a b \<longleftrightarrow> (\<exists>k. a = k * LINE_DX \<and> b = k * LINE_DY)"
proof
  assume h: "on_compass_line a b"
  have nz: "LINE_DX \<noteq> 0" using LINE_DX_bounds by simp
  have "a = (a / LINE_DX) * LINE_DX" using nz by simp
  moreover have "b = (a / LINE_DX) * LINE_DY"
    using h nz by (simp add: on_compass_line_def field_simps)
  ultimately show "\<exists>k. a = k * LINE_DX \<and> b = k * LINE_DY" by blast
next
  assume "\<exists>k. a = k * LINE_DX \<and> b = k * LINE_DY"
  then show "on_compass_line a b" by (auto simp: on_compass_line_def)
qed

lemma parked_on_line:
  "on_compass_line (exitTx width) (exitTy width) \<and> on_compass_line (entryTx width) (entryTy width)"
  by (simp add: on_compass_line_def exitTx_def exitTy_def entryTx_def entryTy_def)

lemma activeMotion_on_line: "on_compass_line (tx (activeMotion width n index t)) (ty (activeMotion width n index t))"
  by (simp add: activeMotion_def Let_def hold_def flyIn_def flyOut_def lerp_def
      on_compass_line_def exitTx_def exitTy_def entryTx_def entryTy_def algebra_simps)

lemma activeStyle_line:
  assumes "on_compass_line (tx m) (ty m)" "1 < scale m"
  shows "on_compass_line (translateX (activeStyle width m)) (translateY (activeStyle width m))
         \<longleftrightarrow> width * 0.18 * LINE_DY = 8 * LINE_DX"
proof -
  let ?c = "scale m - 1"
  have c: "0 < ?c" using assms(2) by simp
  have x: "translateX (activeStyle width m) = tx m - ?c * width * 0.18"
    and y: "translateY (activeStyle width m) = ty m - ?c * 8"
    using assms(2) by (simp_all add: activeStyle_excess)
  have "(tx m - ?c * width * 0.18) * LINE_DY = (ty m - ?c * 8) * LINE_DX
        \<longleftrightarrow> ?c * (width * 0.18 * LINE_DY) = ?c * (8 * LINE_DX)"
    using assms(1) by (auto simp add: on_compass_line_def algebra_simps)
  also have "\<dots> \<longleftrightarrow> width * 0.18 * LINE_DY = 8 * LINE_DX"
    using c by (simp only: mult_cancel_left) simp
  finally show ?thesis by (simp add: on_compass_line_def x y)
qed

lemma updateSlide_inactive:
  "int index \<noteq> activeIndex n progress \<Longrightarrow>
   \<not> is_active (updateSlide width n progress index)
   \<and> on_compass_line (translateX (updateSlide width n progress index))
        (translateY (updateSlide width n progress index))"
  using parked_on_line [of width] by (simp add: updateSlide_def)

lemma updateSlide_active:
  "int index = activeIndex n progress \<Longrightarrow>
   updateSlide width n progress index
     = activeStyle width (activeMotion width n index (intraSlide n progress))"
  by (simp add: updateSlide_def)

lemma activeMotion_scale_le:
  assumes "0 \<le> t" "t < 1" "\<not> (0.75 \<le> t \<and> (index = 0 \<or> int index \<noteq> int n - 1))"
  shows "scale (activeMotion width n index t) \<le> 1"
proof (cases "index \<noteq> 0 \<and> t < 0.15")
  case True
  then have "activeMotion width n index t = flyIn width t"
    by (simp add: activeMotion_def Let_def flyInEnd_def)
  then show ?thesis using flyIn_values [of t width] assms(1) True by (simp add: Let_def)
next
  case False
  then have "activeMotion width n index t = hold"
    using assms(3) by (auto simp add: activeMotion_def Let_def flyInEnd_def holdEnd_def)
  then show ?thesis by (simp add: hold_def)
qed

text \<open>
  C2 (amended). The direction of the line is (cos 160\<degree>, - sin 160\<degree>), and a pair lies on
  the line exactly when it is a scalar multiple of the direction. For every slide: a slide
  that is not active is parked on the line (at the entry or the exit offset); for the active
  slide the pair (\<^verbatim>\<open>tx\<close>, \<^verbatim>\<open>ty\<close>) computed by the branches lies on the line in every
  phase, and the translation written to the slide is that pair plus the scale compensation
  \<open>(- excess * width * 0.18, - excess * 8)\<close> with \<open>excess = max 0 (scale - 1)\<close>. Outside
  fly-out the scale is at most 1, the compensation is zero and the written translation lies on
  the line. During fly-out, once the scale exceeds 1, the written translation lies on the line
  only for the one width with \<open>width * 0.18 * LINE_DY = 8 * LINE_DX\<close>.
\<close>

theorem translations_on_compass_line:
  fixes width progress :: real and n index :: nat
  assumes "index < n"
  defines "s \<equiv> updateSlidesFlyThrough width n progress ! index"
  defines "t \<equiv> intraSlide n progress"
  defines "m \<equiv> activeMotion width n index t"
  shows "LINE_DX = cos (160 * (pi / 180)) \<and> LINE_DY = - sin (160 * (pi / 180))
    \<and> (\<forall>a b. on_compass_line a b \<longleftrightarrow> (\<exists>k. a = k * LINE_DX \<and> b = k * LINE_DY))
    \<and> (\<not> is_active s \<longrightarrow> on_compass_line (translateX s) (translateY s))
    \<and> (is_active s \<longrightarrow>
         int index = activeIndex n progress
         \<and> on_compass_line (tx m) (ty m)
         \<and> translateX s = tx m - max 0 (scale m - 1) * width * 0.18
         \<and> translateY s = ty m - max 0 (scale m - 1) * 8
         \<and> (\<not> (0.75 \<le> t \<and> (index = 0 \<or> index \<noteq> n - 1)) \<longrightarrow>
              scale m \<le> 1 \<and> translateX s = tx m \<and> translateY s = ty m
              \<and> on_compass_line (translateX s) (translateY s))
         \<and> (1 < scale m \<longrightarrow>
              (on_compass_line (translateX s) (translateY s)
               \<longleftrightarrow> width * 0.18 * LINE_DY = 8 * LINE_DX)))"
proof -
  have su: "s = updateSlide width n progress index"
    unfolding s_def using assms(1) by (rule nth_updateSlidesFlyThrough)
  have tb: "0 \<le> t \<and> t < 1" unfolding t_def by (rule intraSlide_bounds)
  have last: "(int index = int n - 1) = (index = n - 1)" using assms(1) by auto
  have ml: "on_compass_line (tx m) (ty m)" unfolding m_def by (rule activeMotion_on_line)
  have inact: "\<not> is_active s \<longrightarrow> on_compass_line (translateX s) (translateY s)"
  proof
    assume "\<not> is_active s"
    then have "int index \<noteq> activeIndex n progress"
      using su updateSlide_active [of index n progress width]
      by (auto simp add: activeStyle_def Let_def)
    then show "on_compass_line (translateX s) (translateY s)"
      using su updateSlide_inactive by simp
  qed
  have act: "is_active s \<longrightarrow>
         int index = activeIndex n progress
         \<and> on_compass_line (tx m) (ty m)
         \<and> translateX s = tx m - max 0 (scale m - 1) * width * 0.18
         \<and> translateY s = ty m - max 0 (scale m - 1) * 8
         \<and> (\<not> (0.75 \<le> t \<and> (index = 0 \<or> index \<noteq> n - 1)) \<longrightarrow>
              scale m \<le> 1 \<and> translateX s = tx m \<and> translateY s = ty m
              \<and> on_compass_line (translateX s) (translateY s))
         \<and> (1 < scale m \<longrightarrow>
              (on_compass_line (translateX s) (translateY s)
               \<longleftrightarrow> width * 0.18 * LINE_DY = 8 * LINE_DX))"
  proof
    assume a: "is_active s"
    have ix: "int index = activeIndex n progress"
    proof (rule ccontr)
      assume "int index \<noteq> activeIndex n progress"
      then have "\<not> is_active s" using su updateSlide_inactive by simp
      then show False using a by simp
    qed
    have sm: "s = activeStyle width m"
      unfolding m_def t_def using su updateSlide_active [OF ix] by simp
    have xy: "translateX s = tx m - max 0 (scale m - 1) * width * 0.18
         \<and> translateY s = ty m - max 0 (scale m - 1) * 8"
      by (simp add: sm activeStyle_def Let_def)
    have calm: "\<not> (0.75 \<le> t \<and> (index = 0 \<or> index \<noteq> n - 1)) \<longrightarrow>
              scale m \<le> 1 \<and> translateX s = tx m \<and> translateY s = ty m
              \<and> on_compass_line (translateX s) (translateY s)"
    proof
      assume h: "\<not> (0.75 \<le> t \<and> (index = 0 \<or> index \<noteq> n - 1))"
      then have h': "\<not> (0.75 \<le> t \<and> (index = 0 \<or> int index \<noteq> int n - 1))"
        using last by blast
      have le: "scale m \<le> 1"
        unfolding m_def
        by (rule activeMotion_scale_le [OF conjunct1 [OF tb] conjunct2 [OF tb] h'])
      then have "translateX s = tx m \<and> translateY s = ty m"
        by (simp add: sm activeStyle_no_excess)
      then show "scale m \<le> 1 \<and> translateX s = tx m \<and> translateY s = ty m
              \<and> on_compass_line (translateX s) (translateY s)"
        using le ml by simp
    qed
    have out: "1 < scale m \<longrightarrow>
              (on_compass_line (translateX s) (translateY s)
               \<longleftrightarrow> width * 0.18 * LINE_DY = 8 * LINE_DX)"
      using activeStyle_line [OF ml, of width] by (simp add: sm)
    show "int index = activeIndex n progress
         \<and> on_compass_line (tx m) (ty m)
         \<and> translateX s = tx m - max 0 (scale m - 1) * width * 0.18
         \<and> translateY s = ty m - max 0 (scale m - 1) * 8
         \<and> (\<not> (0.75 \<le> t \<and> (index = 0 \<or> index \<noteq> n - 1)) \<longrightarrow>
              scale m \<le> 1 \<and> translateX s = tx m \<and> translateY s = ty m
              \<and> on_compass_line (translateX s) (translateY s))
         \<and> (1 < scale m \<longrightarrow>
              (on_compass_line (translateX s) (translateY s)
               \<longleftrightarrow> width * 0.18 * LINE_DY = 8 * LINE_DX))"
      using ix ml xy calm out by blast
  qed
  have iff: "\<forall>a b. on_compass_line a b \<longleftrightarrow> (\<exists>k. a = k * LINE_DX \<and> b = k * LINE_DY)"
    using on_compass_line_iff by blast
  show ?thesis using line_direction_160 iff inact act by blast
qed

theorem translations_on_compass_line_witness:
  "(1::nat) < 4 \<and> (3::nat) < 4
   \<and> is_active (updateSlidesFlyThrough 1000 4 0.26 ! 1)
   \<and> on_compass_line (translateX (updateSlidesFlyThrough 1000 4 0.26 ! 1))
        (translateY (updateSlidesFlyThrough 1000 4 0.26 ! 1))
   \<and> \<not> is_active (updateSlidesFlyThrough 1000 4 0.26 ! 3)
   \<and> on_compass_line (translateX (updateSlidesFlyThrough 1000 4 0.26 ! 3))
        (translateY (updateSlidesFlyThrough 1000 4 0.26 ! 3))"
proof -
  have n1: "(1::nat) < 4" and n3: "(3::nat) < 4" by simp_all
  have a1: "is_active (updateSlidesFlyThrough 1000 4 0.26 ! 1)"
    unfolding nth_updateSlidesFlyThrough [OF n1] updateSlide_def progress_samples
    by (simp add: activeStyle_def Let_def)
  have a3: "\<not> is_active (updateSlidesFlyThrough 1000 4 0.26 ! 3)"
    unfolding nth_updateSlidesFlyThrough [OF n3] updateSlide_def progress_samples
    by simp
  have l1: "on_compass_line (translateX (updateSlidesFlyThrough 1000 4 0.26 ! 1))
        (translateY (updateSlidesFlyThrough 1000 4 0.26 ! 1))"
  proof -
    have nf: "\<not> (0.75 \<le> (1 / 25 :: real) \<and> ((1::nat) = 0 \<or> (1::nat) \<noteq> 4 - 1))" by simp
    show ?thesis
      using translations_on_compass_line [OF n1, where progress = "0.26" and width = 1000,
          unfolded progress_samples] a1 nf
      by blast
  qed
  have l3: "on_compass_line (translateX (updateSlidesFlyThrough 1000 4 0.26 ! 3))
        (translateY (updateSlidesFlyThrough 1000 4 0.26 ! 3))"
    using translations_on_compass_line [OF n3, where progress = "0.26" and width = 1000] a3
    by blast
  show ?thesis using n1 n3 a1 a3 l1 l3 by blast
qed

text \<open>
  C2 as stated fails during fly-out. With a viewport 1000 px wide, four slides and progress
  0.24, the hero slide is active at \<open>t = 0.96\<close> with scale 3.32848, and the translation
  written to it is not a multiple of (\<open>LINE_DX\<close>, \<open>LINE_DY\<close>).
\<close>

theorem flyout_translation_off_line_counterexample:
  "is_active (updateSlidesFlyThrough 1000 4 0.24 ! 0)
   \<and> style_scale (updateSlidesFlyThrough 1000 4 0.24 ! 0) = 3.32848
   \<and> \<not> on_compass_line (translateX (updateSlidesFlyThrough 1000 4 0.24 ! 0))
          (translateY (updateSlidesFlyThrough 1000 4 0.24 ! 0))"
proof -
  let ?m = "activeMotion 1000 4 0 (24 / 25)"
  have n0: "(0::nat) < 4" by simp
  have s: "updateSlidesFlyThrough 1000 4 0.24 ! 0 = activeStyle 1000 ?m"
    unfolding nth_updateSlidesFlyThrough [OF n0] updateSlide_def progress_samples by simp
  have sc: "scale ?m = 3.32848"
    by (simp add: activeMotion_def Let_def holdEnd_def flyOut_def lerp_def)
  have gt: "1 < scale ?m" unfolding sc by simp
  have "1000 * 0.18 * LINE_DY < 8 * LINE_DX"
    using LINE_DY_le LINE_DX_bounds by simp
  then have off: "\<not> on_compass_line (translateX (activeStyle 1000 ?m)) (translateY (activeStyle 1000 ?m))"
    using activeStyle_line [OF activeMotion_on_line gt, of 1000] by simp
  have act: "is_active (activeStyle 1000 ?m)" by (simp add: activeStyle_def Let_def)
  have ss: "style_scale (activeStyle 1000 ?m) = 3.32848"
    using sc by (simp add: activeStyle_def Let_def)
  show ?thesis unfolding s using act ss off by blast
qed


subsection \<open>Recycling of stars\<close>



lemma starFrame_kept:
  assumes "\<not> passed_or_left env (advance speed delta star)"
  shows "starFrame env rnd speed delta warp star k
         = ((advance speed delta star)
              \<lparr>prevX := fst (project env (advance speed delta star)),
               prevY := fst (snd (project env (advance speed delta star))),
               initialized := True\<rparr>,
            k,
            drawStar env warp (advance speed delta star) (project env (advance speed delta star)))"
  using assms by (simp add: starFrame_def passed_or_left_def Let_def)

lemma starFrame_left:
  assumes "\<not> star_z (advance speed delta star) \<le> 1"
    "offscreen env (project env (advance speed delta star))"
  shows "starFrame env rnd speed delta warp star k
         = (fst (resetStar (advance speed delta star) (depth (e_stars env)) (e_spread env) rnd k),
            k + 6, [])"
  using assms by (simp add: starFrame_def Let_def resetStar_def)

lemma starFrame_passed:
  fixes env :: star_env and rnd :: "nat \<Rightarrow> real" and k :: nat and speed delta :: real
    and star :: Star
  assumes "star_z (advance speed delta star) \<le> 1"
  defines "star2 \<equiv> fst (resetStar (advance speed delta star) (depth (e_stars env))
                          (e_spread env) rnd k)"
  shows "starFrame env rnd speed delta warp star k
         = (if offscreen env (project env star2)
            then (fst (resetStar star2 (depth (e_stars env)) (e_spread env) rnd (k + 6)),
                  k + 12, [])
            else (star2\<lparr>prevX := fst (project env star2), prevY := fst (snd (project env star2)),
                        initialized := True\<rparr>,
                  k + 6, drawStar env warp star2 (project env star2)))"
  using assms(1) unfolding star2_def by (simp add: starFrame_def Let_def resetStar_def)

lemma starLoop_pool:
  "starLoop env rnd speed delta warp pool k = (pool', k', ops) \<Longrightarrow>
   length pool' = length pool
   \<and> (\<forall>i<length pool. \<exists>j. pool' ! i = fst (starFrame env rnd speed delta warp (pool ! i) j))"
proof (induction pool arbitrary: k pool' k' ops)
  case Nil
  then show ?case by simp
next
  case (Cons star rest)
  obtain s1 k1 o1 where f: "starFrame env rnd speed delta warp star k = (s1, k1, o1)"
    by (cases "starFrame env rnd speed delta warp star k")
  obtain r2 k2 o2 where l: "starLoop env rnd speed delta warp rest k1 = (r2, k2, o2)"
    by (cases "starLoop env rnd speed delta warp rest k1")
  have p: "pool' = s1 # r2" using Cons.prems f l by simp
  have ih: "length r2 = length rest
     \<and> (\<forall>i<length rest. \<exists>j. r2 ! i = fst (starFrame env rnd speed delta warp (rest ! i) j))"
    using Cons.IH [OF l] .
  have "\<exists>j. pool' ! i = fst (starFrame env rnd speed delta warp ((star # rest) ! i) j)"
    if "i < length (star # rest)" for i
  proof (cases i)
    case 0
    then show ?thesis using p f by (metis fst_conv nth_Cons_0)
  next
    case (Suc i')
    then show ?thesis using p ih that by simp
  qed
  then show ?case using p ih by simp
qed


lemma drawStar_shape:
  "\<exists>lw sa r al.
     drawStar env warp star (sx, sy, dm)
       = (if warp > 0.07 \<and> initialized star \<and> \<not> e_reduceMotion env
          then [StrokeLine (prevX star) (prevY star) sx sy lw sa] else [])
         @ [if isVLogo star \<and> e_vStampReady env
            then DrawImage (sx - r * 7 * 0.5) (sy - r * 7 * 0.5) (r * 7) (al * 0.85)
            else FillArc sx sy r al]"
proof -
  let ?r = "clamp (star_size star * (0.45 + dm * 1.9)) 0.35 3.2"
  let ?al = "clamp (0.12 + dm * 0.86 + warp * 0.08) 0 1"
  have "0.35 \<le> ?r" by (simp add: clamp_def)
  then have v: "?r * 7 > 1.2" by simp
  have "drawStar env warp star (sx, sy, dm)
       = (if warp > 0.07 \<and> initialized star \<and> \<not> e_reduceMotion env
          then [StrokeLine (prevX star) (prevY star) sx sy (clamp (?r * 0.72) 0.35 1.8)
                  (?al * clamp (warp * 1.05) 0 0.92)] else [])
         @ [if isVLogo star \<and> e_vStampReady env
            then DrawImage (sx - ?r * 7 * 0.5) (sy - ?r * 7 * 0.5) (?r * 7) (?al * 0.85)
            else FillArc sx sy ?r ?al]"
    unfolding drawStar_def Let_def using v by simp
  then show ?thesis by blast
qed









lemma sample_speed: "starSpeed sample_env 0 0 0 1 = 0.28"
  by (simp add: starSpeed_def sample_env_def defaultConfig_def Let_def)

lemma sample_near_passed: "passed_or_left sample_env (advance 0.28 1 sample_near)"
  by (simp add: passed_or_left_def advance_def sample_near_def sample_far_def)

lemma sample_far_kept: "\<not> passed_or_left sample_env (advance 0.28 1 sample_far)"
  by (simp add: passed_or_left_def advance_def sample_far_def project_def offscreen_def
      sample_env_def Let_def)


subsection \<open>Streaks\<close>

lemma is_streak_simps:
  "is_streak (StrokeLine x0 y0 x1 y1 w a)" "\<not> is_streak (DrawImage x y v a)"
  "\<not> is_streak (FillArc x y r a)" "\<not> is_streak FillVignette" "\<not> is_streak (FillHalo h)"
  by (simp_all add: is_streak_def)

lemma is_mark_simps:
  "\<not> is_mark (StrokeLine x0 y0 x1 y1 w a)" "is_mark (DrawImage x y v a)"
  "is_mark (FillArc x y r a)" "\<not> is_mark FillVignette" "\<not> is_mark (FillHalo h)"
  by (simp_all add: is_mark_def)

lemma is_stamp_simps:
  "\<not> is_stamp (StrokeLine x0 y0 x1 y1 w a)" "is_stamp (DrawImage x y v a)"
  "\<not> is_stamp (FillArc x y r a)" "\<not> is_stamp FillVignette" "\<not> is_stamp (FillHalo h)"
  by (simp_all add: is_stamp_def)

lemma drawStar_streak_iff:
  "(\<exists>c\<in>set (drawStar env warp star p). is_streak c)
     \<longleftrightarrow> warp > 0.07 \<and> initialized star \<and> \<not> e_reduceMotion env"
proof -
  obtain sx sy dm where p: "p = (sx, sy, dm)" by (cases p)
  show ?thesis
    using drawStar_shape [of env warp star sx sy dm] unfolding p
    by (auto simp add: is_streak_simps split: if_splits)
qed

lemma drawStar_parts:
  "length (filter is_mark (drawStar env warp star p)) = 1
   \<and> length (filter is_streak (drawStar env warp star p)) \<le> 1
   \<and> drawStar env warp star p
       = filter is_streak (drawStar env warp star p) @ filter is_mark (drawStar env warp star p)
   \<and> ((\<exists>c\<in>set (drawStar env warp star p). is_stamp c)
        \<longleftrightarrow> isVLogo star \<and> e_vStampReady env)"
proof -
  obtain sx sy dm where p: "p = (sx, sy, dm)" by (cases p)
  show ?thesis
    using drawStar_shape [of env warp star sx sy dm] unfolding p
    by (auto simp add: is_streak_simps is_mark_simps is_stamp_simps split: if_splits)
qed

lemma drawStar_streak_ends:
  "\<forall>c\<in>set (drawStar env warp star p). is_streak c \<longrightarrow>
     (\<exists>lw a. c = StrokeLine (prevX star) (prevY star) (fst p) (fst (snd p)) lw a)"
proof -
  obtain sx sy dm where p: "p = (sx, sy, dm)" by (cases p)
  show ?thesis
    using drawStar_shape [of env warp star sx sy dm] unfolding p
    by (auto simp add: is_streak_simps split: if_splits)
qed

lemma resetStar_uninitialized: "\<not> initialized (fst (resetStar star dep spread rnd k))"
  by (simp add: resetStar_def)

lemma starFrame_drawn_or_skipped:
  fixes env :: star_env and rnd :: "nat \<Rightarrow> real" and star :: Star and j :: nat
    and speed delta warp :: real
  defines "star1 \<equiv> advance speed delta star"
  defines "res \<equiv> starFrame env rnd speed delta warp star j"
  shows "(\<not> passed_or_left env star1 \<and> initialized (fst res) \<and> isVLogo (fst res) = isVLogo star1
            \<and> snd (snd res) = drawStar env warp star1 (project env star1))
         \<or> (passed_or_left env star1 \<and> initialized (fst res)
            \<and> (\<exists>star2 p. \<not> initialized star2 \<and> isVLogo (fst res) = isVLogo star2
                  \<and> snd (snd res) = drawStar env warp star2 p))
         \<or> (passed_or_left env star1 \<and> \<not> initialized (fst res) \<and> snd (snd res) = [])"
proof (cases "passed_or_left env star1")
  case False
  then show ?thesis unfolding res_def star1_def by (simp add: starFrame_kept)
next
  case True
  show ?thesis
  proof (cases "star_z star1 \<le> 1")
    case z: True
    let ?s2 = "fst (resetStar star1 (depth (e_stars env)) (e_spread env) rnd j)"
    have u: "\<not> initialized ?s2" by (rule resetStar_uninitialized)
    note f = starFrame_passed [OF z [unfolded star1_def], where env = env and rnd = rnd
        and k = j and warp = warp, folded star1_def res_def]
    show ?thesis
    proof (cases "offscreen env (project env ?s2)")
      case True
      then have "res = (fst (resetStar ?s2 (depth (e_stars env)) (e_spread env) rnd (j + 6)),
                  j + 12, [])"
        using f by simp
      then show ?thesis using \<open>passed_or_left env star1\<close> resetStar_uninitialized by simp
    next
      case False
      then have "res = (?s2\<lparr>prevX := fst (project env ?s2),
                        prevY := fst (snd (project env ?s2)), initialized := True\<rparr>,
                  j + 6, drawStar env warp ?s2 (project env ?s2))"
        using f by simp
      then have "initialized (fst res) \<and> isVLogo (fst res) = isVLogo ?s2
          \<and> snd (snd res) = drawStar env warp ?s2 (project env ?s2)"
        by simp
      then show ?thesis using \<open>passed_or_left env star1\<close> u by blast
    qed
  next
    case z: False
    then have off: "offscreen env (project env star1)"
      using True by (simp add: passed_or_left_def)
    have "res = (fst (resetStar star1 (depth (e_stars env)) (e_spread env) rnd j), j + 6, [])"
      unfolding res_def using starFrame_left [OF z [unfolded star1_def] off [unfolded star1_def]]
      by (simp add: star1_def)
    then show ?thesis using True resetStar_uninitialized by simp
  qed
qed

lemma starFrame_streak_iff:
  "(\<exists>c\<in>set (snd (snd (starFrame env rnd speed delta warp star j))). is_streak c)
     \<longleftrightarrow> warp > 0.07 \<and> initialized star \<and> \<not> passed_or_left env (advance speed delta star)
          \<and> \<not> e_reduceMotion env"
proof -
  let ?star1 = "advance speed delta star"
  let ?ops = "snd (snd (starFrame env rnd speed delta warp star j))"
  have i: "initialized ?star1 = initialized star"
    by (simp add: advance_def)
  consider
    (kept) "\<not> passed_or_left env ?star1" "?ops = drawStar env warp ?star1 (project env ?star1)"
    | (fresh) star2 p where "passed_or_left env ?star1" "\<not> initialized star2"
        "?ops = drawStar env warp star2 p"
    | (skipped) "passed_or_left env ?star1" "?ops = []"
    using starFrame_drawn_or_skipped [of env speed delta star rnd warp j] by blast
  then show ?thesis
  proof cases
    case kept
    show ?thesis
      unfolding kept(2) drawStar_streak_iff i using kept(1) by blast
  next
    case fresh
    show ?thesis
      unfolding fresh(3) drawStar_streak_iff using fresh(1) fresh(2) by blast
  next
    case skipped
    show ?thesis unfolding skipped(2) using skipped(1) by simp
  qed
qed

lemma starLoop_streaks:
  "starLoop env rnd speed delta warp pool k = (pool', k', ops) \<Longrightarrow>
   \<forall>c\<in>set ops. is_streak c \<longrightarrow> warp > 0.07 \<and> \<not> e_reduceMotion env"
proof (induction pool arbitrary: k pool' k' ops)
  case Nil
  then show ?case by simp
next
  case (Cons star rest)
  obtain s1 k1 o1 where f: "starFrame env rnd speed delta warp star k = (s1, k1, o1)"
    by (cases "starFrame env rnd speed delta warp star k")
  obtain r2 k2 o2 where l: "starLoop env rnd speed delta warp rest k1 = (r2, k2, o2)"
    by (cases "starLoop env rnd speed delta warp rest k1")
  have p: "ops = o1 @ o2" using Cons.prems f l by simp
  have a: "\<forall>c\<in>set o1. is_streak c \<longrightarrow> warp > 0.07 \<and> \<not> e_reduceMotion env"
    using starFrame_streak_iff [of env rnd speed delta warp star k] f by auto
  show ?case unfolding p using a Cons.IH [OF l] by auto
qed


lemma drawStar_explicit:
  fixes env :: star_env and star :: Star and warp sx sy dm :: real
  defines "alpha \<equiv> clamp (0.12 + dm * 0.86 + warp * 0.08) 0 1"
  defines "radius \<equiv> clamp (star_size star * (0.45 + dm * 1.9)) 0.35 3.2"
  shows "drawStar env warp star (sx, sy, dm)
       = (if warp > 0.07 \<and> initialized star \<and> \<not> e_reduceMotion env
          then [StrokeLine (prevX star) (prevY star) sx sy (clamp (radius * 0.72) 0.35 1.8)
                  (alpha * clamp (warp * 1.05) 0 0.92)] else [])
         @ [if isVLogo star \<and> e_vStampReady env
            then DrawImage (sx - radius * 7 * 0.5) (sy - radius * 7 * 0.5) (radius * 7)
                   (alpha * 0.85)
            else FillArc sx sy radius alpha]"
proof -
  have "0.35 \<le> radius" unfolding radius_def by (simp add: clamp_def)
  then have v: "radius * 7 > 1.2" by simp
  show ?thesis
    using v unfolding radius_def alpha_def drawStar_def Let_def by simp
qed

lemma drawStar_uninitialized:
  assumes "\<not> initialized star"
  shows "\<exists>x y r a. drawStar env warp star p = [DrawImage x y r a]
                   \<or> drawStar env warp star p = [FillArc x y r a]"
proof -
  obtain sx sy dm where p: "p = (sx, sy, dm)" by (cases p)
  define alpha where "alpha = clamp (0.12 + dm * 0.86 + warp * 0.08) 0 1"
  define radius where "radius = clamp (star_size star * (0.45 + dm * 1.9)) 0.35 3.2"
  have e: "drawStar env warp star (sx, sy, dm)
       = [if isVLogo star \<and> e_vStampReady env
            then DrawImage (sx - radius * 7 * 0.5) (sy - radius * 7 * 0.5) (radius * 7)
                   (alpha * 0.85)
            else FillArc sx sy radius alpha]"
    unfolding drawStar_explicit alpha_def radius_def using assms by simp
  show ?thesis
  proof (cases "isVLogo star \<and> e_vStampReady env")
    case True
    then have "drawStar env warp star p = [DrawImage (sx - radius * 7 * 0.5)
        (sy - radius * 7 * 0.5) (radius * 7) (alpha * 0.85)]"
      unfolding p e by (simp only: if_True simp_thms)
    then show ?thesis by blast
  next
    case False
    then have "drawStar env warp star p = [FillArc sx sy radius alpha]"
      unfolding p e by (simp only: if_False simp_thms)
    then show ?thesis by blast
  qed
qed









subsection \<open>The parsed configuration\<close>

lemma nullish_or_not_nullish: "\<not> nullish b \<Longrightarrow> \<not> nullish (nullish_or a b)"
  by (simp add: nullish_or_def)

lemma filled_nullish_or: "filled a b (nullish_or a b)"
  by (simp add: filled_def nullish_or_def)

lemma js_default_fields:
  "sequenceHeightDesktop js_defaultConfig = JNum 520"
  "sequenceHeightMobile js_defaultConfig = JNum 470"
  "revealDuration (animation js_defaultConfig) = JNum 0.8"
  "revealY (animation js_defaultConfig) = JNum 24"
  "magneticScale (animation js_defaultConfig) = JNum 1.02"
  "desktopCount (stars js_defaultConfig) = JNum 860"
  "mobileCount (stars js_defaultConfig) = JNum 500"
  "depth (stars js_defaultConfig) = JNum 1600"
  "baseSpeed (stars js_defaultConfig) = JNum 0.28"
  "warpBoost (stars js_defaultConfig) = JNum 5.1"
  "start (orbit js_defaultConfig) = JNum 0.62"
  "full (orbit js_defaultConfig) = JNum 0.78"
  "radiusDesktop (orbit js_defaultConfig) = JNum 260"
  "radiusMobile (orbit js_defaultConfig) = JNum 220"
  "rings (orbit js_defaultConfig) = JArr (map js_of_ring defaultRings)"
  by (simp_all add: js_defaultConfig_def defaultConfig_def)

lemma populated_default: "populated js_defaultConfig"
  by (simp add: populated_def js_default_fields nullish_def)

lemma build_config_populated: "build_config parsed = Inr c \<Longrightarrow> populated c"
proof -
  assume b: "build_config parsed = Inr c"
  have d: "\<not> nullish (JNum u)" "\<not> nullish (JArr vs)" for u vs by (simp_all add: nullish_def)
  from b have nn: "\<not> nullish parsed" by (auto simp add: build_config_def split: if_splits)
  from b nn have "c = projr (build_config parsed)" by simp
  then show ?thesis
    using nn unfolding populated_def build_config_def
    by (simp add: js_default_fields nullish_or_not_nullish d)
qed

lemma parseConfig_populated: "populated (parseConfig JSON_parse attr)"
  unfolding parseConfig_def
  by (auto simp add: populated_default build_config_populated
      split: option.splits sum.splits)

lemma build_config_filled:
  assumes "\<not> nullish parsed"
  shows "(let c = projr (build_config parsed)
          in build_config parsed = Inr c
             \<and> filled (get_prop parsed ''sequenceHeightDesktop'') (JNum 520)
                  (sequenceHeightDesktop c)
             \<and> filled (get_prop parsed ''sequenceHeightMobile'') (JNum 470)
                  (sequenceHeightMobile c)
             \<and> filled (opt_prop (get_prop parsed ''animation'') ''revealDuration'') (JNum 0.8)
                  (revealDuration (animation c))
             \<and> filled (opt_prop (get_prop parsed ''animation'') ''revealY'') (JNum 24)
                  (revealY (animation c))
             \<and> filled (opt_prop (get_prop parsed ''animation'') ''magneticScale'') (JNum 1.02)
                  (magneticScale (animation c))
             \<and> filled (opt_prop (get_prop parsed ''stars'') ''desktopCount'') (JNum 860)
                  (desktopCount (stars c))
             \<and> filled (opt_prop (get_prop parsed ''stars'') ''mobileCount'') (JNum 500)
                  (mobileCount (stars c))
             \<and> filled (opt_prop (get_prop parsed ''stars'') ''depth'') (JNum 1600)
                  (depth (stars c))
             \<and> filled (opt_prop (get_prop parsed ''stars'') ''baseSpeed'') (JNum 0.28)
                  (baseSpeed (stars c))
             \<and> filled (opt_prop (get_prop parsed ''stars'') ''warpBoost'') (JNum 5.1)
                  (warpBoost (stars c))
             \<and> filled (opt_prop (get_prop parsed ''orbit'') ''start'') (JNum 0.62)
                  (start (orbit c))
             \<and> filled (opt_prop (get_prop parsed ''orbit'') ''full'') (JNum 0.78)
                  (full (orbit c))
             \<and> filled (opt_prop (get_prop parsed ''orbit'') ''radiusDesktop'') (JNum 260)
                  (radiusDesktop (orbit c))
             \<and> filled (opt_prop (get_prop parsed ''orbit'') ''radiusMobile'') (JNum 220)
                  (radiusMobile (orbit c))
             \<and> filled (opt_prop (get_prop parsed ''orbit'') ''rings'') (JArr (map js_of_ring defaultRings))
                  (rings (orbit c)))"
  using assms unfolding Let_def build_config_def
  by (simp add: js_default_fields filled_nullish_or)

text \<open>
  C9. \<^verbatim>\<open>parseConfig\<close> returns a configuration in every case, whatever the attribute and
  whatever \<^verbatim>\<open>JSON.parse\<close> does with it. It returns \<^verbatim>\<open>defaultConfig\<close> when the attribute is
  absent or empty, when \<^verbatim>\<open>JSON.parse\<close> throws, and when the parsed value is \<^verbatim>\<open>null\<close> (the
  TypeError is caught). For any other parsed value each of the fifteen fields, the nested
  fields of \<open>animation\<close>, \<open>stars\<close> and \<open>orbit\<close> included, is the given value when there is
  one and the value of \<^verbatim>\<open>defaultConfig\<close> when it is missing (\<^verbatim>\<open>undefined\<close> or \<^verbatim>\<open>null\<close>).
  In every case every field of the result is populated.
\<close>

theorem parseConfig_total_and_populated:
  "parseConfig JSON_parse None = js_defaultConfig
   \<and> parseConfig JSON_parse (Some []) = js_defaultConfig
   \<and> (JSON_parse raw = None \<longrightarrow> parseConfig JSON_parse (Some raw) = js_defaultConfig)
   \<and> (JSON_parse raw = Some JNull \<longrightarrow> parseConfig JSON_parse (Some raw) = js_defaultConfig)
   \<and> populated js_defaultConfig
   \<and> populated (parseConfig JSON_parse attr)
   \<and> (raw \<noteq> [] \<and> JSON_parse raw = Some parsed \<and> \<not> nullish parsed \<longrightarrow>
         (let c = parseConfig JSON_parse (Some raw)
          in filled (get_prop parsed ''sequenceHeightDesktop'') (JNum 520)
                  (sequenceHeightDesktop c)
             \<and> filled (get_prop parsed ''sequenceHeightMobile'') (JNum 470)
                  (sequenceHeightMobile c)
             \<and> filled (opt_prop (get_prop parsed ''animation'') ''revealDuration'') (JNum 0.8)
                  (revealDuration (animation c))
             \<and> filled (opt_prop (get_prop parsed ''animation'') ''revealY'') (JNum 24)
                  (revealY (animation c))
             \<and> filled (opt_prop (get_prop parsed ''animation'') ''magneticScale'') (JNum 1.02)
                  (magneticScale (animation c))
             \<and> filled (opt_prop (get_prop parsed ''stars'') ''desktopCount'') (JNum 860)
                  (desktopCount (stars c))
             \<and> filled (opt_prop (get_prop parsed ''stars'') ''mobileCount'') (JNum 500)
                  (mobileCount (stars c))
             \<and> filled (opt_prop (get_prop parsed ''stars'') ''depth'') (JNum 1600)
                  (depth (stars c))
             \<and> filled (opt_prop (get_prop parsed ''stars'') ''baseSpeed'') (JNum 0.28)
                  (baseSpeed (stars c))
             \<and> filled (opt_prop (get_prop parsed ''stars'') ''warpBoost'') (JNum 5.1)
                  (warpBoost (stars c))
             \<and> filled (opt_prop (get_prop parsed ''orbit'') ''start'') (JNum 0.62)
                  (start (orbit c))
             \<and> filled (opt_prop (get_prop parsed ''orbit'') ''full'') (JNum 0.78)
                  (full (orbit c))
             \<and> filled (opt_prop (get_prop parsed ''orbit'') ''radiusDesktop'') (JNum 260)
                  (radiusDesktop (orbit c))
             \<and> filled (opt_prop (get_prop parsed ''orbit'') ''radiusMobile'') (JNum 220)
                  (radiusMobile (orbit c))
             \<and> filled (opt_prop (get_prop parsed ''orbit'') ''rings'') (JArr (map js_of_ring defaultRings))
                  (rings (orbit c))))"
proof -
  have a: "parseConfig JSON_parse None = js_defaultConfig
      \<and> parseConfig JSON_parse (Some []) = js_defaultConfig"
    by (simp add: parseConfig_def)
  have b: "JSON_parse raw = None \<longrightarrow> parseConfig JSON_parse (Some raw) = js_defaultConfig"
    by (simp add: parseConfig_def)
  have c: "JSON_parse raw = Some JNull \<longrightarrow> parseConfig JSON_parse (Some raw) = js_defaultConfig"
    by (simp add: parseConfig_def build_config_def nullish_def)
  have d: "raw \<noteq> [] \<and> JSON_parse raw = Some parsed \<and> \<not> nullish parsed \<longrightarrow>
         (let c = parseConfig JSON_parse (Some raw)
          in filled (get_prop parsed ''sequenceHeightDesktop'') (JNum 520)
                  (sequenceHeightDesktop c)
             \<and> filled (get_prop parsed ''sequenceHeightMobile'') (JNum 470)
                  (sequenceHeightMobile c)
             \<and> filled (opt_prop (get_prop parsed ''animation'') ''revealDuration'') (JNum 0.8)
                  (revealDuration (animation c))
             \<and> filled (opt_prop (get_prop parsed ''animation'') ''revealY'') (JNum 24)
                  (revealY (animation c))
             \<and> filled (opt_prop (get_prop parsed ''animation'') ''magneticScale'') (JNum 1.02)
                  (magneticScale (animation c))
             \<and> filled (opt_prop (get_prop parsed ''stars'') ''desktopCount'') (JNum 860)
                  (desktopCount (stars c))
             \<and> filled (opt_prop (get_prop parsed ''stars'') ''mobileCount'') (JNum 500)
                  (mobileCount (stars c))
             \<and> filled (opt_prop (get_prop parsed ''stars'') ''depth'') (JNum 1600)
                  (depth (stars c))
             \<and> filled (opt_prop (get_prop parsed ''stars'') ''baseSpeed'') (JNum 0.28)
                  (baseSpeed (stars c))
             \<and> filled (opt_prop (get_prop parsed ''stars'') ''warpBoost'') (JNum 5.1)
                  (warpBoost (stars c))
             \<and> filled (opt_prop (get_prop parsed ''orbit'') ''start'') (JNum 0.62)
                  (start (orbit c))
             \<and> filled (opt_prop (get_prop parsed ''orbit'') ''full'') (JNum 0.78)
                  (full (orbit c))
             \<and> filled (opt_prop (get_prop parsed ''orbit'') ''radiusDesktop'') (JNum 260)
                  (radiusDesktop (orbit c))
             \<and> filled (opt_prop (get_prop parsed ''orbit'') ''radiusMobile'') (JNum 220)
                  (radiusMobile (orbit c))
             \<and> filled (opt_prop (get_prop parsed ''orbit'') ''rings'') (JArr (map js_of_ring defaultRings))
                  (rings (orbit c)))"
  proof
    assume h: "raw \<noteq> [] \<and> JSON_parse raw = Some parsed \<and> \<not> nullish parsed"
    then have nn: "\<not> nullish parsed" by simp
    have e: "build_config parsed = Inr (projr (build_config parsed))"
      using build_config_filled [OF nn] by (simp add: Let_def)
    obtain cfg where cfg: "build_config parsed = Inr cfg" using e by blast
    have "parseConfig JSON_parse (Some raw) = projr (build_config parsed)"
      using h by (simp add: parseConfig_def cfg)
    then show "let c = parseConfig JSON_parse (Some raw)
          in filled (get_prop parsed ''sequenceHeightDesktop'') (JNum 520)
                  (sequenceHeightDesktop c)
             \<and> filled (get_prop parsed ''sequenceHeightMobile'') (JNum 470)
                  (sequenceHeightMobile c)
             \<and> filled (opt_prop (get_prop parsed ''animation'') ''revealDuration'') (JNum 0.8)
                  (revealDuration (animation c))
             \<and> filled (opt_prop (get_prop parsed ''animation'') ''revealY'') (JNum 24)
                  (revealY (animation c))
             \<and> filled (opt_prop (get_prop parsed ''animation'') ''magneticScale'') (JNum 1.02)
                  (magneticScale (animation c))
             \<and> filled (opt_prop (get_prop parsed ''stars'') ''desktopCount'') (JNum 860)
                  (desktopCount (stars c))
             \<and> filled (opt_prop (get_prop parsed ''stars'') ''mobileCount'') (JNum 500)
                  (mobileCount (stars c))
             \<and> filled (opt_prop (get_prop parsed ''stars'') ''depth'') (JNum 1600)
                  (depth (stars c))
             \<and> filled (opt_prop (get_prop parsed ''stars'') ''baseSpeed'') (JNum 0.28)
                  (baseSpeed (stars c))
             \<and> filled (opt_prop (get_prop parsed ''stars'') ''warpBoost'') (JNum 5.1)
                  (warpBoost (stars c))
             \<and> filled (opt_prop (get_prop parsed ''orbit'') ''start'') (JNum 0.62)
                  (start (orbit c))
             \<and> filled (opt_prop (get_prop parsed ''orbit'') ''full'') (JNum 0.78)
                  (full (orbit c))
             \<and> filled (opt_prop (get_prop parsed ''orbit'') ''radiusDesktop'') (JNum 260)
                  (radiusDesktop (orbit c))
             \<and> filled (opt_prop (get_prop parsed ''orbit'') ''radiusMobile'') (JNum 220)
                  (radiusMobile (orbit c))
             \<and> filled (opt_prop (get_prop parsed ''orbit'') ''rings'') (JArr (map js_of_ring defaultRings))
                  (rings (orbit c))"
      using build_config_filled [OF nn] by (simp add: Let_def)
  qed
  show ?thesis using a b c d populated_default parseConfig_populated by blast
qed

theorem parseConfig_witness:
  \<open>''{"stars":{"depth":900}}'' \<noteq> []
   \<and> \<not> nullish (JObj [(''stars'', JObj [(''depth'', JNum 900)])])
   \<and> depth (stars (parseConfig (\<lambda>s. Some (JObj [(''stars'', JObj [(''depth'', JNum 900)])]))
                      (Some ''{"stars":{"depth":900}}''))) = JNum 900
   \<and> baseSpeed (stars (parseConfig (\<lambda>s. Some (JObj [(''stars'', JObj [(''depth'', JNum 900)])]))
                      (Some ''{"stars":{"depth":900}}''))) = JNum 0.28
   \<and> start (orbit (parseConfig (\<lambda>s. Some (JObj [(''stars'', JObj [(''depth'', JNum 900)])]))
                      (Some ''{"stars":{"depth":900}}''))) = JNum 0.62
   \<and> parseConfig (\<lambda>s. None) (Some ''{"stars":'') = js_defaultConfig
   \<and> parseConfig (\<lambda>s. Some JNull) (Some ''null'') = js_defaultConfig\<close>
proof -
  let ?obj = "JObj [(''stars'', JObj [(''depth'', JNum 900)])]"
  have n: "\<not> nullish ?obj" by (simp add: nullish_def)
  have g: "opt_prop (get_prop ?obj ''stars'') ''depth'' = JNum 900"
    "opt_prop (get_prop ?obj ''stars'') ''baseSpeed'' = JUndefined"
    "opt_prop (get_prop ?obj ''orbit'') ''start'' = JUndefined"
    by (simp_all add: opt_prop_def get_prop_def nullish_def)
  have a: \<open>depth (stars (parseConfig (\<lambda>s. Some ?obj) (Some ''{"stars":{"depth":900}}''))) = JNum 900
     \<and> baseSpeed (stars (parseConfig (\<lambda>s. Some ?obj) (Some ''{"stars":{"depth":900}}''))) = JNum 0.28
     \<and> start (orbit (parseConfig (\<lambda>s. Some ?obj) (Some ''{"stars":{"depth":900}}''))) = JNum 0.62\<close>
    using parseConfig_total_and_populated
      [where JSON_parse = "\<lambda>s. Some ?obj" and parsed = ?obj, of \<open>''{"stars":{"depth":900}}''\<close>] n
    by (simp add: Let_def g filled_def nullish_def)
  have b: \<open>parseConfig (\<lambda>s. None) (Some ''{"stars":'') = js_defaultConfig\<close>
    using parseConfig_total_and_populated [where JSON_parse = "\<lambda>s. None", of \<open>''{"stars":''\<close>]
    by simp
  have c: \<open>parseConfig (\<lambda>s. Some JNull) (Some ''null'') = js_defaultConfig\<close>
    using parseConfig_total_and_populated [where JSON_parse = "\<lambda>s. Some JNull", of \<open>''null''\<close>]
    by simp
  show ?thesis using n a b c by simp
qed

subsection \<open>Ring assignment and angular spacing\<close>

lemma push_nodes_buckets:
  "fold (push_node asg) [0..<m] (Inr (replicate R [])) = Inr bs \<Longrightarrow>
   length bs = R
   \<and> (\<forall>i<m. \<exists>r<R. asg ! i = Some (int r))
   \<and> (\<forall>r<R. bs ! r = filter (\<lambda>j. asg ! j = Some (int r)) [0..<m])"
proof (induction m arbitrary: bs)
  case 0
  then show ?case by auto
next
  case (Suc m)
  let ?prev = "fold (push_node asg) [0..<m] (Inr (replicate R []))"
  have step: "push_node asg m ?prev = Inr bs" using Suc.prems by simp
  then obtain bs0 where p0: "?prev = Inr bs0"
    by (cases ?prev) (simp_all add: push_node_def)
  note ih = Suc.IH [OF p0]
  from step p0 obtain q where q: "asg ! m = Some q" "0 \<le> q" "q < int (length bs0)"
    and bs: "bs = bs0[nat q := bs0 ! nat q @ [m]]"
    by (auto simp add: push_node_def split: option.splits if_splits)
  have lq: "nat q < R" using q ih by simp
  have qi: "asg ! m = Some (int (nat q))" using q by simp
  have a: "length bs = R" using bs ih by simp
  have b: "\<forall>i<Suc m. \<exists>r<R. asg ! i = Some (int r)"
  proof (intro allI impI)
    fix i assume "i < Suc m"
    then consider "i < m" | "i = m" by linarith
    then show "\<exists>r<R. asg ! i = Some (int r)"
    proof cases
      case 1
      then show ?thesis using ih by blast
    next
      case 2
      then show ?thesis using lq qi by blast
    qed
  qed
  have c: "\<forall>r<R. bs ! r = filter (\<lambda>j. asg ! j = Some (int r)) [0..<Suc m]"
  proof (intro allI impI)
    fix r assume r: "r < R"
    have old: "bs0 ! r = filter (\<lambda>j. asg ! j = Some (int r)) [0..<m]" using ih r by blast
    show "bs ! r = filter (\<lambda>j. asg ! j = Some (int r)) [0..<Suc m]"
    proof (cases "r = nat q")
      case True
      then have "bs ! r = bs0 ! r @ [m]" using bs r ih by simp
      moreover have "asg ! m = Some (int r)" using True qi by simp
      ultimately show ?thesis using old by simp
    next
      case False
      then have "bs ! r = bs0 ! r" using bs by simp
      moreover have "asg ! m \<noteq> Some (int r)" using False q by auto
      ultimately show ?thesis using old by simp
    qed
  qed
  show ?case using a b c by blast
qed

lemma push_nodes_succeeds:
  "(\<forall>i<m. \<exists>r<R. asg ! i = Some (int r)) \<Longrightarrow>
   \<exists>bs. fold (push_node asg) [0..<m] (Inr (replicate R [])) = Inr bs"
proof (induction m)
  case 0
  then show ?case by simp
next
  case (Suc m)
  then obtain bs0 where p0: "fold (push_node asg) [0..<m] (Inr (replicate R [])) = Inr bs0"
    by auto
  have l: "length bs0 = R" using push_nodes_buckets [OF p0] by blast
  obtain r where r: "r < R" "asg ! m = Some (int r)" using Suc.prems by blast
  have "fold (push_node asg) [0..<Suc m] (Inr (replicate R [])) = push_node asg m (Inr bs0)"
    using p0 by simp
  moreover have "push_node asg m (Inr bs0) = Inr (bs0[r := bs0 ! r @ [m]])"
    using l r by (simp add: push_node_def)
  ultimately show ?case by simp
qed

lemma filter_upt_position:
  assumes "P i" "i < n"
  shows "filter P [0..<n] ! length (filter P [0..<i]) = i
         \<and> length (filter P [0..<i]) < length (filter P [0..<n])"
proof -
  have "[0..<n] = [0..<i] @ i # [Suc i..<n]"
    using assms(2) by (metis less_imp_le_nat upt_add_eq_append le_add_diff_inverse
        upt_conv_Cons zero_le)
  then have "filter P [0..<n] = filter P [0..<i] @ i # filter P [Suc i..<n]"
    using assms(1) by simp
  then show ?thesis by (simp add: nth_append)
qed

lemma fold_place_untouched:
  "idx \<notin> snd ` set ps \<Longrightarrow>
   fold (\<lambda>(posInRing, nodeIdx) angles. angles[nodeIdx := Some (ring_angle posInRing len)]) ps acc
     ! idx = acc ! idx"
  by (induction ps arbitrary: acc) (auto simp add: case_prod_beta)

lemma fold_place_length:
  "length (fold (\<lambda>(posInRing, nodeIdx) angles.
                   angles[nodeIdx := Some (ring_angle posInRing len)]) ps acc) = length acc"
  by (induction ps arbitrary: acc) (auto simp add: case_prod_beta)

lemma fold_place_written:
  "distinct (map snd ps) \<Longrightarrow> (pos, idx) \<in> set ps \<Longrightarrow> idx < length acc \<Longrightarrow>
   fold (\<lambda>(posInRing, nodeIdx) angles. angles[nodeIdx := Some (ring_angle posInRing len)]) ps acc
     ! idx = Some (ring_angle pos len)"
proof (induction ps arbitrary: acc)
  case Nil
  then show ?case by simp
next
  case (Cons a ps)
  obtain p0 i0 where a: "a = (p0, i0)" by (cases a)
  show ?case
  proof (cases "(pos, idx) = a")
    case True
    then have "idx \<notin> snd ` set ps" using Cons.prems(1) a by auto
    then show ?thesis
      using fold_place_untouched [of idx ps len] Cons.prems(3) True a by simp
  next
    case False
    then have m: "(pos, idx) \<in> set ps" using Cons.prems(2) by simp
    have d: "distinct (map snd ps)" using Cons.prems(1) by simp
    have l: "idx < length (acc[i0 := Some (ring_angle p0 len)])" using Cons.prems(3) by simp
    show ?thesis using Cons.IH [OF d m l] a by simp
  qed
qed

lemma snd_zip_upt: "map snd (zip [0..<length b] b) = b"
  by (simp add: map_snd_zip)

lemma place_bucket_untouched:
  assumes "idx \<notin> set b"
  shows "place_bucket b acc ! idx = acc ! idx"
proof -
  have "snd ` set (zip [0..<length b] b) = set b"
    using snd_zip_upt [of b] by (metis set_map)
  then show ?thesis
    unfolding place_bucket_def using assms by (intro fold_place_untouched) simp
qed

lemma place_bucket_length: "length (place_bucket b acc) = length acc"
  unfolding place_bucket_def by (rule fold_place_length)

lemma place_bucket_written:
  assumes "distinct b" "k < length b" "b ! k < length acc"
  shows "place_bucket b acc ! (b ! k) = Some (ring_angle k (length b))"
proof -
  have "zip [0..<length b] b ! k = (k, b ! k)" using assms(2) by simp
  moreover have "k < length (zip [0..<length b] b)" using assms(2) by simp
  ultimately have "(k, b ! k) \<in> set (zip [0..<length b] b)" by (metis nth_mem)
  then show ?thesis
    unfolding place_bucket_def using assms(1) assms(3)
    by (intro fold_place_written) (simp_all add: snd_zip_upt)
qed

lemma fold_buckets_untouched:
  "(\<forall>b\<in>set bs. idx \<notin> set b) \<Longrightarrow> fold place_bucket bs acc ! idx = acc ! idx"
  by (induction bs arbitrary: acc) (simp_all add: place_bucket_untouched)

lemma fold_buckets_length: "length (fold place_bucket bs acc) = length acc"
  by (induction bs arbitrary: acc) (simp_all add: place_bucket_length)

lemma fold_buckets_written:
  assumes r: "r < length bs" and d: "distinct (bs ! r)" and k: "k < length (bs ! r)"
    and l: "bs ! r ! k < length acc"
    and o: "\<forall>r'<length bs. r' \<noteq> r \<longrightarrow> bs ! r ! k \<notin> set (bs ! r')"
  shows "fold place_bucket bs acc ! (bs ! r ! k) = Some (ring_angle k (length (bs ! r)))"
proof -
  let ?x = "bs ! r ! k"
  let ?acc1 = "fold place_bucket (take r bs) acc"
  have split: "bs = take r bs @ bs ! r # drop (Suc r) bs"
    using r by (rule id_take_nth_drop)
  have "fold place_bucket bs acc
      = fold place_bucket (drop (Suc r) bs) (place_bucket (bs ! r) ?acc1)"
    by (subst split) simp
  moreover have "\<forall>b\<in>set (drop (Suc r) bs). ?x \<notin> set b"
  proof
    fix b assume "b \<in> set (drop (Suc r) bs)"
    then obtain i where i: "i < length (drop (Suc r) bs)" "b = drop (Suc r) bs ! i"
      by (auto simp add: in_set_conv_nth)
    then have "b = bs ! (Suc r + i)" "Suc r + i < length bs" by auto
    then show "?x \<notin> set b" using o by auto
  qed
  moreover have "place_bucket (bs ! r) ?acc1 ! ?x = Some (ring_angle k (length (bs ! r)))"
    using d k l by (intro place_bucket_written) (simp_all add: fold_buckets_length)
  ultimately show ?thesis by (simp add: fold_buckets_untouched)
qed

lemma ring_angle_inj:
  assumes "k < n" "k' < n" "k \<noteq> k'"
  shows "ring_angle k n \<noteq> ring_angle k' n"
proof
  assume "ring_angle k n = ring_angle k' n"
  then have "real k / real (max n 1) * pi * 2 = real k' / real (max n 1) * pi * 2"
    by (simp add: ring_angle_def)
  then have "real k / real (max n 1) = real k' / real (max n 1)" by simp
  moreover have "real (max n 1) \<noteq> 0" by simp
  ultimately have "real k = real k'" by (simp only: divide_cancel_right) simp
  then show False using assms(3) by simp
qed

lemma assignNodesToRings_Inr:
  assumes "assignNodesToRings R attrs = Inr (asg, angles)"
  shows "asg = map ring_index attrs
         \<and> (\<exists>bs. fold (push_node asg) [0..<length attrs] (Inr (replicate R [])) = Inr bs
                  \<and> angles = fold place_bucket bs (replicate (length attrs) None))"
  using assms
  by (auto simp add: assignNodesToRings_def Let_def split: sum.splits)

lemma node_angle:
  assumes run: "assignNodesToRings R attrs = Inr (asg, angles)" and i: "i < length attrs"
  shows "angles ! i = Some (ring_angle (length (ring_mates asg i i))
                              (length (ring_mates asg i (length attrs))))
         \<and> length (ring_mates asg i i) < length (ring_mates asg i (length attrs))"
proof -
  let ?n = "length attrs"
  obtain bs where asg: "asg = map ring_index attrs"
    and push: "fold (push_node asg) [0..<?n] (Inr (replicate R [])) = Inr bs"
    and ang: "angles = fold place_bucket bs (replicate ?n None)"
    using assignNodesToRings_Inr [OF run] by blast
  note pb = push_nodes_buckets [OF push]
  obtain r where r: "r < R" "asg ! i = Some (int r)" using pb i by blast
  let ?P = "\<lambda>j. asg ! j = asg ! i"
  have br: "bs ! r = filter ?P [0..<?n]" using pb r by simp
  have mates: "ring_mates asg i ?n = bs ! r" "ring_mates asg i i = filter ?P [0..<i]"
    by (simp_all add: ring_mates_def br)
  let ?k = "length (filter ?P [0..<i])"
  have pos: "bs ! r ! ?k = i \<and> ?k < length (bs ! r)"
    unfolding br using filter_upt_position [of ?P i ?n] i by simp
  have d: "distinct (bs ! r)" unfolding br by simp
  have others: "\<forall>r'<length bs. r' \<noteq> r \<longrightarrow> bs ! r ! ?k \<notin> set (bs ! r')"
  proof (intro allI impI)
    fix r' assume r': "r' < length bs" "r' \<noteq> r"
    then have "bs ! r' = filter (\<lambda>j. asg ! j = Some (int r')) [0..<?n]" using pb by simp
    moreover have "asg ! i \<noteq> Some (int r')" using r r' by simp
    ultimately show "bs ! r ! ?k \<notin> set (bs ! r')" using pos by simp
  qed
  have "fold place_bucket bs (replicate ?n None) ! (bs ! r ! ?k)
      = Some (ring_angle ?k (length (bs ! r)))"
    using pb r d pos others i by (intro fold_buckets_written) simp_all
  then show ?thesis using pos ang mates by simp
qed

lemma ring_mates_position_mono:
  assumes "i < j" "asg ! i = asg ! j"
  shows "length (ring_mates asg i i) < length (ring_mates asg j j)"
proof -
  have "length (filter (\<lambda>u. asg ! u = asg ! j) [0..<i])
      < length (filter (\<lambda>u. asg ! u = asg ! j) [0..<j])"
    using filter_upt_position [of "\<lambda>u. asg ! u = asg ! j" i j] assms by simp
  then show ?thesis using assms(2) by (simp add: ring_mates_def)
qed

lemma same_ring_distinct_angles:
  assumes run: "assignNodesToRings R attrs = Inr (asg, angles)"
    and i: "i < length attrs" and j: "j < length attrs" and ne: "i \<noteq> j"
    and same: "asg ! i = asg ! j"
  shows "angles ! i \<noteq> angles ! j"
proof -
  have m: "ring_mates asg i (length attrs) = ring_mates asg j (length attrs)"
    using same by (simp add: ring_mates_def)
  have kk: "length (ring_mates asg i i) \<noteq> length (ring_mates asg j j)"
  proof (cases "i < j")
    case True
    then show ?thesis using ring_mates_position_mono [OF True same] by simp
  next
    case False
    then have "j < i" using ne by simp
    then show ?thesis using ring_mates_position_mono [of j i asg] same by simp
  qed
  note a = node_angle [OF run i] and b = node_angle [OF run j]
  have "ring_angle (length (ring_mates asg i i)) (length (ring_mates asg i (length attrs)))
      \<noteq> ring_angle (length (ring_mates asg j j)) (length (ring_mates asg i (length attrs)))"
    using a b kk m by (intro ring_angle_inj) simp_all
  then show ?thesis using a b m by simp
qed

lemma assignNodesToRings_succeeds_iff:
  "(\<exists>res. assignNodesToRings R attrs = Inr res)
     \<longleftrightarrow> (\<forall>i<length attrs. \<exists>r<R. ring_index (attrs ! i) = Some (int r))"
proof
  assume "\<exists>res. assignNodesToRings R attrs = Inr res"
  then obtain asg angles where run: "assignNodesToRings R attrs = Inr (asg, angles)" by auto
  obtain bs where asg: "asg = map ring_index attrs"
    and push: "fold (push_node asg) [0..<length attrs] (Inr (replicate R [])) = Inr bs"
    using assignNodesToRings_Inr [OF run] by blast
  show "\<forall>i<length attrs. \<exists>r<R. ring_index (attrs ! i) = Some (int r)"
    using push_nodes_buckets [OF push] asg by simp
next
  assume h: "\<forall>i<length attrs. \<exists>r<R. ring_index (attrs ! i) = Some (int r)"
  then have "\<forall>i<length attrs. \<exists>r<R. map ring_index attrs ! i = Some (int r)" by simp
  then obtain bs where
    "fold (push_node (map ring_index attrs)) [0..<length attrs] (Inr (replicate R [])) = Inr bs"
    using push_nodes_succeeds [of "length attrs" R "map ring_index attrs"] by blast
  then show "\<exists>res. assignNodesToRings R attrs = Inr res"
    by (simp add: assignNodesToRings_def Let_def)
qed

lemma push_nodes_error:
  "acc \<noteq> Inl RangeError \<Longrightarrow> fold (push_node asg) xs acc \<noteq> Inl RangeError"
proof (induction xs arbitrary: acc)
  case Nil
  then show ?case by simp
next
  case (Cons x xs)
  have "push_node asg x acc \<noteq> Inl RangeError"
    using Cons.prems by (auto simp add: push_node_def split: sum.splits option.splits)
  then show ?case using Cons.IH by simp
qed

lemma assignNodesToRings_error:
  assumes "assignNodesToRings R attrs = Inl e"
  shows "e = TypeError"
proof -
  have "fold (push_node (map ring_index attrs)) [0..<length attrs] (Inr (replicate R []))
          \<noteq> Inl RangeError"
    by (rule push_nodes_error) simp
  then have "assignNodesToRings R attrs \<noteq> Inl RangeError"
    by (auto simp add: assignNodesToRings_def Let_def split: sum.splits)
  then show ?thesis using assms by (cases e) simp_all
qed

text \<open>
  C8 (amended). \<^verbatim>\<open>assignNodesToRings\<close> gives every orbit node the ring index
  \<^verbatim>\<open>parseInt(ringAttr, 10) - 1\<close> of its \<^verbatim>\<open>data-ring\<close> attribute, and ring index 1 when the
  attribute is absent or empty. If each of these indices is the index of a configured
  ring, the function completes, and with \<open>k\<close> the number of earlier nodes on the same ring
  and \<open>n\<close> the number of nodes on that ring, \<open>k < n\<close> and the base angle of the node is
  \<open>(k / n) * 2 * pi - pi / 2\<close>; two distinct nodes on the same ring have different base
  angles. Otherwise (an attribute that does not start with a number, a ring number that is
  0, negative or above the number of configured rings, or the default index 1 with fewer
  than two configured rings) the bucket read throws a TypeError and no angle is assigned.
\<close>

theorem assignNodesToRings_spacing_or_TypeError:
  fixes R :: nat and attrs :: "js_string option list"
  defines "asg \<equiv> map ring_index attrs"
  shows "(\<forall>i<length attrs.
            asg ! i = (case attrs ! i of
                         None \<Rightarrow> Some 1
                       | Some a \<Rightarrow> if a = [] then Some 1
                                   else map_option (\<lambda>v. v - 1) (parseInt10 a)))
    \<and> ((\<forall>i<length attrs. \<exists>r<R. asg ! i = Some (int r)) \<longrightarrow>
          (\<exists>angles. assignNodesToRings R attrs = Inr (asg, angles)
             \<and> length angles = length attrs
             \<and> (\<forall>i<length attrs.
                   length (ring_mates asg i i) < length (ring_mates asg i (length attrs))
                   \<and> angles ! i
                       = Some (real (length (ring_mates asg i i))
                                 / real (length (ring_mates asg i (length attrs))) * pi * 2
                               - pi / 2))
             \<and> (\<forall>i<length attrs. \<forall>j<length attrs.
                   i \<noteq> j \<and> asg ! i = asg ! j \<longrightarrow> angles ! i \<noteq> angles ! j)))
    \<and> (\<not> (\<forall>i<length attrs. \<exists>r<R. asg ! i = Some (int r)) \<longrightarrow>
          assignNodesToRings R attrs = Inl TypeError)"
proof -
  let ?ok = "\<forall>i<length attrs. \<exists>r<R. asg ! i = Some (int r)"
  have okiff: "?ok \<longleftrightarrow> (\<forall>i<length attrs. \<exists>r<R. ring_index (attrs ! i) = Some (int r))"
    unfolding asg_def by simp
  have v: "\<forall>i<length attrs.
          asg ! i = (case attrs ! i of
                       None \<Rightarrow> Some 1
                     | Some a \<Rightarrow> if a = [] then Some 1
                                 else map_option (\<lambda>v. v - 1) (parseInt10 a))"
    unfolding asg_def by (simp add: ring_index_def)
  have good: "\<exists>angles. assignNodesToRings R attrs = Inr (asg, angles)
             \<and> length angles = length attrs
             \<and> (\<forall>i<length attrs.
                   length (ring_mates asg i i) < length (ring_mates asg i (length attrs))
                   \<and> angles ! i
                       = Some (real (length (ring_mates asg i i))
                                 / real (length (ring_mates asg i (length attrs))) * pi * 2
                               - pi / 2))
             \<and> (\<forall>i<length attrs. \<forall>j<length attrs.
                   i \<noteq> j \<and> asg ! i = asg ! j \<longrightarrow> angles ! i \<noteq> angles ! j)" if ok: ?ok
  proof -
    obtain asg' angles where run': "assignNodesToRings R attrs = Inr (asg', angles)"
      using assignNodesToRings_succeeds_iff [of R attrs] ok okiff by auto
    have "asg' = asg" using assignNodesToRings_Inr [OF run'] unfolding asg_def by blast
    then have run: "assignNodesToRings R attrs = Inr (asg, angles)" using run' by simp
    obtain bs where ang: "angles = fold place_bucket bs (replicate (length attrs) None)"
      using assignNodesToRings_Inr [OF run] by blast
    have l: "length angles = length attrs" using ang by (simp add: fold_buckets_length)
    have an: "\<forall>i<length attrs.
          length (ring_mates asg i i) < length (ring_mates asg i (length attrs))
          \<and> angles ! i
              = Some (real (length (ring_mates asg i i))
                        / real (length (ring_mates asg i (length attrs))) * pi * 2 - pi / 2)"
    proof (intro allI impI)
      fix i assume i: "i < length attrs"
      note a = node_angle [OF run i]
      then have "max (length (ring_mates asg i (length attrs))) 1
          = length (ring_mates asg i (length attrs))" by simp
      then show "length (ring_mates asg i i) < length (ring_mates asg i (length attrs))
          \<and> angles ! i
              = Some (real (length (ring_mates asg i i))
                        / real (length (ring_mates asg i (length attrs))) * pi * 2 - pi / 2)"
        using a by (simp add: ring_angle_def)
    qed
    have di: "\<forall>i<length attrs. \<forall>j<length attrs.
          i \<noteq> j \<and> asg ! i = asg ! j \<longrightarrow> angles ! i \<noteq> angles ! j"
      using same_ring_distinct_angles [OF run] by blast
    show ?thesis using run l an di by blast
  qed
  have bad: "assignNodesToRings R attrs = Inl TypeError" if nok: "\<not> ?ok"
  proof (cases "assignNodesToRings R attrs")
    case (Inl e)
    then show ?thesis using assignNodesToRings_error [OF Inl] by simp
  next
    case (Inr res)
    then have ?ok using assignNodesToRings_succeeds_iff [of R attrs] okiff by blast
    then show ?thesis using nok by simp
  qed
  show ?thesis using v good bad by blast
qed

lemma sample_ring_indices:
  "map ring_index [Some (js_str ''1''), Some (js_str '' 2''), None, Some [160, 50],
                   Some (js_str ''+3.5'')]
     = [Some 0, Some 1, Some 1, Some 1, Some 2]"
  by (simp add: ring_index_def parseInt10_def is_space_def is_digit_def digits_value_def
      digit_value_def js_str_def Let_def)

lemma sample_rings_run:
  "assignNodesToRings 3 [Some (js_str ''1''), Some (js_str '' 2''), None, Some [160, 50],
                         Some (js_str ''+3.5'')]
     = Inr ([Some 0, Some 1, Some 1, Some 1, Some 2],
            [Some (ring_angle 0 1), Some (ring_angle 0 3), Some (ring_angle 1 3),
             Some (ring_angle 2 3), Some (ring_angle 0 1)])"
  unfolding assignNodesToRings_def Let_def sample_ring_indices
  by (simp add: push_node_def place_bucket_def upt_rec numeral_nat)

lemma sample_bad_ring_indices:
  "map ring_index [Some (js_str ''1''), Some (js_str ''ring2'')] = [Some 0, None]"
  by (simp add: ring_index_def parseInt10_def is_space_def is_digit_def digits_value_def
      digit_value_def js_str_def Let_def)

theorem assignNodesToRings_spacing_or_TypeError_witness:
  "assignNodesToRings 3 [Some (js_str ''1''), Some (js_str '' 2''), None, Some [160, 50],
                         Some (js_str ''+3.5'')]
     = Inr ([Some 0, Some 1, Some 1, Some 1, Some 2],
            [Some (ring_angle 0 1), Some (ring_angle 0 3), Some (ring_angle 1 3),
             Some (ring_angle 2 3), Some (ring_angle 0 1)])
   \<and> Some (ring_angle 1 3) \<noteq> Some (ring_angle 2 3)
   \<and> ring_angle 1 3 = 1 / 3 * pi * 2 - pi / 2
   \<and> assignNodesToRings 3 [Some (js_str ''1''), Some (js_str ''ring2'')] = Inl TypeError"
proof -
  let ?attrs = "[Some (js_str ''1''), Some (js_str '' 2''), None, Some [160, 50],
                 Some (js_str ''+3.5'')]"
  let ?asg = "[Some 0, Some 1, Some 1, Some 1, Some 2] :: int option list"
  let ?angles = "[Some (ring_angle 0 1), Some (ring_angle 0 3), Some (ring_angle 1 3),
             Some (ring_angle 2 3), Some (ring_angle 0 1)]"
  let ?bad = "[Some (js_str ''1''), Some (js_str ''ring2'')]"
  have "\<forall>i<length ?attrs. \<exists>r<3. ring_index (?attrs ! i) = Some (int r)"
    using assignNodesToRings_succeeds_iff [of 3 ?attrs] sample_rings_run by simp
  then have ok: "\<forall>i<length ?attrs. \<exists>r<3. map ring_index ?attrs ! i = Some (int r)"
    by (metis nth_map)
  note t = assignNodesToRings_spacing_or_TypeError [of ?attrs 3, THEN conjunct2,
      THEN conjunct1, THEN mp, OF ok]
  then obtain angles where
    run: "assignNodesToRings 3 ?attrs = Inr (map ring_index ?attrs, angles)"
    and di: "\<forall>i<length ?attrs. \<forall>j<length ?attrs.
               i \<noteq> j \<and> map ring_index ?attrs ! i = map ring_index ?attrs ! j
               \<longrightarrow> angles ! i \<noteq> angles ! j"
    by blast
  have ae: "angles = ?angles" using run unfolding sample_rings_run by simp
  have "(2::nat) < length ?attrs \<and> (3::nat) < length ?attrs \<and> (2::nat) \<noteq> 3
        \<and> map ring_index ?attrs ! 2 = map ring_index ?attrs ! 3"
    unfolding sample_ring_indices by simp
  then have "angles ! 2 \<noteq> angles ! 3" using di by blast
  then have ne: "Some (ring_angle 1 3) \<noteq> Some (ring_angle 2 3)" unfolding ae by simp
  have f: "ring_angle 1 3 = 1 / 3 * pi * 2 - pi / 2" by (simp add: ring_angle_def)
  have "(1::nat) < length ?bad \<and> map ring_index ?bad ! 1 = None"
    unfolding sample_bad_ring_indices by simp
  then have nok: "\<not> (\<forall>i<length ?bad. \<exists>r<3. map ring_index ?bad ! i = Some (int r))"
    by (metis option.distinct(1))
  have b: "assignNodesToRings 3 ?bad = Inl TypeError"
    using assignNodesToRings_spacing_or_TypeError [of ?bad 3, THEN conjunct2, THEN conjunct2]
      nok by blast
  show ?thesis using sample_rings_run ne f b by simp
qed

text \<open>
  Against C8 as written (``defaulting to ring index 1 when the attribute is absent'', every
  node receiving a base angle): with a single configured ring, a node without the
  attribute is given ring index 1, which is the index of no ring; the bucket read throws a
  TypeError and \<^verbatim>\<open>orbitAngles\<close> is never assigned.
\<close>

theorem default_ring_missing_counterexample:
  "ring_index None = Some 1 \<and> assignNodesToRings 1 [None] = Inl TypeError"
  by (simp add: ring_index_def assignNodesToRings_def push_node_def Let_def)

end
